theory Spec2Isabelle
  imports Main "HOL-Library.Sublist" "HOL-Library.AList"
begin

section \<open>JavaScript values as the pages use them\<close>

text \<open>
  The three pages (\<^verbatim>\<open>freelance.tsx\<close>, \<^verbatim>\<open>repairs.tsx\<close> and the appointments page) read
  Firestore documents as untyped objects (\<^verbatim>\<open>d.data() as any\<close>, \<^verbatim>\<open>appointment: any\<close>), so the
  model keeps JavaScript's dynamic values: a field may be missing, null, or of any type.
  An object is its list of own properties in insertion order. Numbers are integers here;
  the code only tests them for truthiness, where \<^verbatim>\<open>NaN\<close> behaves as \<^verbatim>\<open>0\<close> does. Arrays,
  timestamps and the other Firestore values are objects: truthy, and without any of the
  properties the pages read from a user, a technician or an appointment.
\<close>

datatype jsval =
    JUndefined
  | JNull
  | JBool bool
  | JNum int
  | JStr string
  | JObj "(string \<times> jsval) list"

type_synonym jsobj = "(string \<times> jsval) list"

text \<open>\<^verbatim>\<open>!!v\<close>: what \<^verbatim>\<open>||\<close>, \<^verbatim>\<open>&&\<close>, \<^verbatim>\<open>!\<close>, \<^verbatim>\<open>?:\<close> and \<^verbatim>\<open>Array.filter\<close> test.\<close>

fun truthy :: "jsval \<Rightarrow> bool" where
  "truthy JUndefined = False"
| "truthy JNull = False"
| "truthy (JBool b) = b"
| "truthy (JNum n) = (n \<noteq> 0)"
| "truthy (JStr s) = (s \<noteq> [])"
| "truthy (JObj kvs) = True"

fun nullish :: "jsval \<Rightarrow> bool" where
  "nullish JUndefined = True"
| "nullish JNull = True"
| "nullish v = False"

text \<open>\<^verbatim>\<open>a || b\<close> on values whose evaluation cannot throw.\<close>

definition js_or :: "jsval \<Rightarrow> jsval \<Rightarrow> jsval" where
  "js_or a b = (if truthy a then a else b)"

text \<open>\<^verbatim>\<open>o.k\<close> on an object: the property's value, \<^verbatim>\<open>undefined\<close> when it has none.\<close>

definition field :: "jsobj \<Rightarrow> string \<Rightarrow> jsval" where
  "field obj k = (case map_of obj k of None \<Rightarrow> JUndefined | Some v \<Rightarrow> v)"

text \<open>
  \<^verbatim>\<open>v?.k\<close>: \<^verbatim>\<open>undefined\<close> when \<^verbatim>\<open>v\<close> is null or undefined, the property otherwise
  (a boolean, a number or a string has none of the properties read here).
\<close>

fun opt_field :: "jsval \<Rightarrow> string \<Rightarrow> jsval" where
  "opt_field (JObj kvs) k = field kvs k"
| "opt_field v k = JUndefined"

text \<open>
  The errors the pages can meet: a \<^verbatim>\<open>TypeError\<close> (a property of null or undefined, a
  method called on a value that does not have it), a failed Firestore call, and React's
  error for an object given as the text of an element. In the resolvers and the filters
  every property of a value that may be null or undefined is read with \<^verbatim>\<open>?.\<close>, or with
  the plain dot behind a test that the value is truthy, so no property read throws there;
  the markup of the cards has plain reads that do.
\<close>

datatype js_error = TypeError | FirestoreError | InvalidChild

text \<open>
  \<^verbatim>\<open>{...base, k: v}\<close> and \<^verbatim>\<open>{k: v, ...more}\<close>: a property that exists keeps its place and
  takes the new value, a new one is appended.
\<close>

definition set_field :: "string \<Rightarrow> jsval \<Rightarrow> jsobj \<Rightarrow> jsobj" where
  "set_field k v obj = AList.update k v obj"

definition spread :: "jsobj \<Rightarrow> jsobj \<Rightarrow> jsobj" where
  "spread base more = fold (\<lambda>kv obj. set_field (fst kv) (snd kv) obj) more base"

subsection \<open>Strings\<close>

text \<open>
  A \<^typ>\<open>string\<close> is a list of bytes: ASCII text as it is, other text in UTF-8, where
  one text occurs in another exactly when its bytes do.

  \<^verbatim>\<open>String.prototype.toLowerCase\<close> is the platform's and folds every cased letter of
  Unicode, so it is not written out here: every definition that calls it takes it as
  its first argument, \<^verbatim>\<open>lower\<close>, and what is proved holds for every such function.
\<close>

type_synonym lowercase = "string \<Rightarrow> string"

text \<open>
  On ASCII text \<^verbatim>\<open>toLowerCase\<close> replaces the letters A to Z and keeps every other
  character. This is the function the examples, all of them ASCII, are evaluated with.
\<close>

definition lower_char :: "char \<Rightarrow> char" where
  "lower_char c =
     (case map_of (zip ''ABCDEFGHIJKLMNOPQRSTUVWXYZ'' ''abcdefghijklmnopqrstuvwxyz'') c of
        Some d \<Rightarrow> d
      | None \<Rightarrow> c)"

definition ascii_lower :: lowercase where
  "ascii_lower s = map lower_char s"

text \<open>\<^verbatim>\<open>s.includes(t)\<close>: \<^verbatim>\<open>t\<close> occurs in \<^verbatim>\<open>s\<close> as a contiguous run.\<close>

fun includes_str :: "string \<Rightarrow> string \<Rightarrow> bool" where
  "includes_str [] t = (t = [])"
| "includes_str (c # s) t = (prefix t (c # s) \<or> includes_str s t)"

section \<open>The Firestore store, as the pages see it\<close>

text \<open>
  A query snapshot is the list of its documents, each an id and its data
  (\<^verbatim>\<open>snapshot.docs\<close>, \<^verbatim>\<open>d.id\<close>, \<^verbatim>\<open>d.data()\<close>).
\<close>

type_synonym doc = "string \<times> jsobj"

type_synonym snapshot = "doc list"

section \<open>Freelance technicians (\<^verbatim>\<open>freelance.tsx\<close>)\<close>

text \<open>\<^verbatim>\<open>snapshot.docs.map((d) => ({ uid: d.id, ...(d.data() as any) }))\<close>\<close>

definition freelance_docs :: "snapshot \<Rightarrow> jsobj list" where
  "freelance_docs snap = map (\<lambda>d. spread [(''uid'', JStr (fst d))] (snd d)) snap"

text \<open>
  The callback of \<^verbatim>\<open>docs.filter\<close>:
  \<^verbatim>\<open>const status = typeof t.status === "string" ? t.status.toLowerCase() : "";\<close>
  \<^verbatim>\<open>return !t.isDeleted && status === "approved" && !t.hasShop;\<close>
\<close>

definition freelance_status :: "lowercase \<Rightarrow> jsobj \<Rightarrow> string" where
  "freelance_status lower t = (case field t ''status'' of JStr s \<Rightarrow> lower s | _ \<Rightarrow> [])"

definition is_freelance :: "lowercase \<Rightarrow> jsobj \<Rightarrow> bool" where
  "is_freelance lower t =
     (\<not> truthy (field t ''isDeleted'') \<and> freelance_status lower t = ''approved''
      \<and> \<not> truthy (field t ''hasShop''))"

definition freelanceTechs :: "lowercase \<Rightarrow> snapshot \<Rightarrow> jsobj list" where
  "freelanceTechs lower snap = filter (is_freelance lower) (freelance_docs snap)"


section \<open>Point reads (\<^verbatim>\<open>getDoc\<close>)\<close>

text \<open>
  \<^verbatim>\<open>await getDoc(doc(db, collection, id))\<close> either throws or gives a document snapshot
  that exists, with its data, or does not. For an id that is a string the outcome of the
  whole expression is a parameter of the model, \<^verbatim>\<open>rd\<close>: it stands for the store and for
  \<^verbatim>\<open>doc\<close>, which throws on a string that names no document (one with a slash in the wrong
  place). An id that is not a string makes \<^verbatim>\<open>doc\<close> throw. Both calls stand in one
  \<^verbatim>\<open>try\<close> block, so the resolvers cannot tell which of them threw.
\<close>

datatype doc_snapshot = Missing | Existing jsobj

type_synonym reads = "string \<Rightarrow> string \<Rightarrow> js_error + doc_snapshot"

definition getDoc :: "reads \<Rightarrow> string \<Rightarrow> jsval \<Rightarrow> js_error + doc_snapshot" where
  "getDoc rd coll ident = (case ident of JStr s \<Rightarrow> rd coll s | _ \<Rightarrow> Inl FirestoreError)"

section \<open>The resolver of the repairs page (\<^verbatim>\<open>repairs.tsx\<close>)\<close>

text \<open>
  \<^verbatim>\<open>let userData = null; try { const userDoc = await getDoc(...);\<close>
  \<^verbatim>\<open>if (userDoc.exists()) { userData = userDoc.data(); } } catch (error) { console.error(...) }\<close>
  The catch block only logs: a failed read leaves \<^verbatim>\<open>userData\<close> null, as a missing
  document does.
\<close>

definition try_fetch :: "reads \<Rightarrow> string \<Rightarrow> jsval \<Rightarrow> jsval" where
  "try_fetch rd coll ident =
     (case getDoc rd coll ident of
        Inl e \<Rightarrow> JNull
      | Inr Missing \<Rightarrow> JNull
      | Inr (Existing d) \<Rightarrow> JObj d)"

text \<open>
  \<^verbatim>\<open>!appointment.userInfo && !appointment.userDetails && appointment.userId\<close> and its
  twin for the technician.
\<close>

definition repairs_fetches_user :: "jsobj \<Rightarrow> bool" where
  "repairs_fetches_user a =
     (\<not> truthy (field a ''userInfo'') \<and> \<not> truthy (field a ''userDetails'')
      \<and> truthy (field a ''userId''))"

definition repairs_fetches_technician :: "jsobj \<Rightarrow> bool" where
  "repairs_fetches_technician a =
     (\<not> truthy (field a ''technicianInfo'') \<and> \<not> truthy (field a ''technicianDetails'')
      \<and> truthy (field a ''technicianId''))"

text \<open>
  The four object literals of the returned record. The source writes
  \<^verbatim>\<open>appointment.userInfo || userData ? {...} : undefined\<close>, which JavaScript reads as
  \<^verbatim>\<open>(appointment.userInfo || userData) ? {...} : undefined\<close>; every field of the literal
  is read from \<^verbatim>\<open>userData\<close> with \<^verbatim>\<open>?.\<close>.
\<close>

definition repairs_userInfo :: "jsobj \<Rightarrow> jsval \<Rightarrow> jsval" where
  "repairs_userInfo a userData =
     (if truthy (js_or (field a ''userInfo'') userData) then
        JObj [(''username'', js_or (js_or (opt_field userData ''username'')
                                          (opt_field userData ''name'')) (JStr ''Unknown'')),
              (''email'', js_or (opt_field userData ''email'') (JStr ''N/A'')),
              (''phone'', js_or (opt_field userData ''phone'') (JStr ''N/A''))]
      else JUndefined)"

definition repairs_technicianInfo :: "jsobj \<Rightarrow> jsval \<Rightarrow> jsval" where
  "repairs_technicianInfo a technicianData =
     (if truthy (js_or (field a ''technicianInfo'') technicianData) then
        JObj [(''username'', js_or (js_or (js_or (opt_field technicianData ''username'')
                                                 (opt_field technicianData ''name''))
                                          (opt_field technicianData ''fullName''))
                                   (JStr ''Unknown'')),
              (''email'', js_or (opt_field technicianData ''email'') (JStr ''N/A'')),
              (''phone'', js_or (opt_field technicianData ''phone'') (JStr ''N/A''))]
      else JUndefined)"

definition repairs_userDetails :: "jsobj \<Rightarrow> jsval \<Rightarrow> jsval" where
  "repairs_userDetails a userData =
     (if truthy (js_or (field a ''userDetails'') userData) then
        JObj [(''name'', js_or (js_or (opt_field userData ''username'')
                                      (opt_field userData ''name'')) (JStr ''Unknown'')),
              (''email'', js_or (opt_field userData ''email'') (JStr ''N/A'')),
              (''phone'', js_or (opt_field userData ''phone'') (JStr ''N/A''))]
      else JUndefined)"

definition repairs_technicianDetails :: "jsobj \<Rightarrow> jsval \<Rightarrow> jsval" where
  "repairs_technicianDetails a technicianData =
     (if truthy (js_or (field a ''technicianDetails'') technicianData) then
        JObj [(''name'', js_or (js_or (js_or (opt_field technicianData ''username'')
                                             (opt_field technicianData ''name''))
                                      (opt_field technicianData ''fullName''))
                               (JStr ''Unknown'')),
              (''phone'', js_or (opt_field technicianData ''phone'') (JStr ''N/A'')),
              (''rating'', js_or (js_or (opt_field technicianData ''averageRating'')
                                        (opt_field technicianData ''rating'')) (JNum 0)),
              (''experience'', js_or (opt_field technicianData ''experience'') (JStr ''N/A'')),
              (''shopName'', js_or (opt_field technicianData ''shopName'') (JStr ''N/A'')),
              (''distance'', js_or (opt_field technicianData ''distance'') (JNum 0))]
      else JUndefined)"

text \<open>
  \<^verbatim>\<open>fetchUserAndTechnicianDetails\<close> of \<^verbatim>\<open>repairs.tsx\<close>. It returns the resolved record
  together with the lookups it attempted: one entry, the collection and the id, for each
  of the two \<^verbatim>\<open>try\<close> blocks it entered, whether or not the call in it got as far as the
  store. It takes the store's answers and gives no store back: the function calls
  \<^verbatim>\<open>getDoc\<close> and nothing that writes. The appointment is an object and \<^verbatim>\<open>userData\<close> is read with \<^verbatim>\<open>?.\<close>,
  so nothing outside the two inner \<^verbatim>\<open>try\<close> blocks throws and the outer \<^verbatim>\<open>catch\<close>
  (\<^verbatim>\<open>return appointment\<close>) is never entered.
\<close>

definition repairs_fetchUserAndTechnicianDetails ::
  "reads \<Rightarrow> jsobj \<Rightarrow> jsobj \<times> (string \<times> jsval) list" where
  "repairs_fetchUserAndTechnicianDetails rd a =
     (let userData =
            (if repairs_fetches_user a then try_fetch rd ''users'' (field a ''userId'')
             else JNull);
          technicianData =
            (if repairs_fetches_technician a
             then try_fetch rd ''technicians'' (field a ''technicianId'')
             else JNull)
      in (set_field ''technicianDetails'' (repairs_technicianDetails a technicianData)
            (set_field ''userDetails'' (repairs_userDetails a userData)
              (set_field ''technicianInfo'' (repairs_technicianInfo a technicianData)
                (set_field ''userInfo'' (repairs_userInfo a userData) a))),
          (if repairs_fetches_user a then [(''users'', field a ''userId'')] else [])
          @ (if repairs_fetches_technician a
             then [(''technicians'', field a ''technicianId'')] else [])))"

section \<open>The resolver of the appointments page\<close>

text \<open>
  \<^verbatim>\<open>{ username: x.username || x.name || "Unknown", email: x.email || "N/A",\<close>
  \<^verbatim>\<open>phone: x.phone || "N/A" }\<close>: the literal the appointments resolver builds from a
  fetched document and again from the snapshot it ends with. Where it is used \<^verbatim>\<open>x\<close> is
  truthy, so the plain dot does not throw.
\<close>

definition contact_snapshot :: "jsval \<Rightarrow> jsval" where
  "contact_snapshot x =
     JObj [(''username'', js_or (js_or (opt_field x ''username'') (opt_field x ''name''))
                                (JStr ''Unknown'')),
           (''email'', js_or (opt_field x ''email'') (JStr ''N/A'')),
           (''phone'', js_or (opt_field x ''phone'') (JStr ''N/A''))]"

text \<open>
  \<^verbatim>\<open>if (!info && id) { try { ... if (d.exists()) { info = {...} } } catch { warn } }\<close>:
  the value of \<^verbatim>\<open>userInfo\<close> (or \<^verbatim>\<open>technicianInfo\<close>) after the block, and whether it read.
\<close>

definition appointments_fetches :: "jsval \<Rightarrow> jsval \<Rightarrow> bool" where
  "appointments_fetches info ident = (\<not> truthy info \<and> truthy ident)"

definition appointments_lookup :: "reads \<Rightarrow> string \<Rightarrow> jsval \<Rightarrow> jsval \<Rightarrow> jsval" where
  "appointments_lookup rd coll info ident =
     (if appointments_fetches info ident then
        (case getDoc rd coll ident of
           Inl e \<Rightarrow> info
         | Inr Missing \<Rightarrow> info
         | Inr (Existing d) \<Rightarrow> contact_snapshot (JObj d))
      else info)"

text \<open>
  \<^verbatim>\<open>fetchUserAndTechnicianDetails\<close> of the appointments page, with the lookups it
  attempted. As in the repairs page, the outer \<^verbatim>\<open>catch\<close> is never entered.
\<close>

definition appointments_fetchUserAndTechnicianDetails ::
  "reads \<Rightarrow> jsobj \<Rightarrow> jsobj \<times> (string \<times> jsval) list" where
  "appointments_fetchUserAndTechnicianDetails rd a =
     (let userInfo0 = js_or (field a ''userInfo'') (field a ''userDetails'');
          technicianInfo0 = js_or (field a ''technicianInfo'') (field a ''technicianDetails'');
          userInfo = appointments_lookup rd ''users'' userInfo0 (field a ''userId'');
          technicianInfo =
            appointments_lookup rd ''technicians'' technicianInfo0 (field a ''technicianId'')
      in (set_field ''technicianInfo''
            (if truthy technicianInfo then contact_snapshot technicianInfo else JUndefined)
            (set_field ''userInfo''
              (if truthy userInfo then contact_snapshot userInfo else JUndefined) a),
          (if appointments_fetches userInfo0 (field a ''userId'')
           then [(''users'', field a ''userId'')] else [])
          @ (if appointments_fetches technicianInfo0 (field a ''technicianId'')
             then [(''technicians'', field a ''technicianId'')] else [])))"


section \<open>Search and status filters\<close>

text \<open>
  \<^verbatim>\<open>a || b\<close> where evaluating an operand may throw: the right operand is evaluated only
  when the left one is falsy.
\<close>

definition or_else :: "js_error + jsval \<Rightarrow> js_error + jsval \<Rightarrow> js_error + jsval" where
  "or_else a b = (case a of Inl e \<Rightarrow> Inl e | Inr v \<Rightarrow> if truthy v then Inr v else b)"

text \<open>
  \<^verbatim>\<open>v.toLowerCase().includes(q)\<close>: only a string has the method \<^verbatim>\<open>toLowerCase\<close>; on
  anything else the call is a \<^verbatim>\<open>TypeError\<close>.
\<close>

fun lower_includes :: "lowercase \<Rightarrow> jsval \<Rightarrow> string \<Rightarrow> js_error + jsval" where
  "lower_includes lower (JStr s) q = Inr (JBool (includes_str (lower s) q))"
| "lower_includes lower v q = Inl TypeError"

text \<open>
  \<^verbatim>\<open>v?.toLowerCase()?.includes(q)\<close>, the tail of \<^verbatim>\<open>repair.userInfo?.username?...\<close>:
  \<^verbatim>\<open>undefined\<close> when \<^verbatim>\<open>v\<close> is null or undefined.
\<close>

definition opt_lower_includes :: "lowercase \<Rightarrow> jsval \<Rightarrow> string \<Rightarrow> js_error + jsval" where
  "opt_lower_includes lower v q =
     (if nullish v then Inr JUndefined else lower_includes lower v q)"

text \<open>\<^verbatim>\<open>(v && v.toLowerCase().includes(q))\<close>: a falsy \<^verbatim>\<open>v\<close> is the value.\<close>

definition guarded_lower_includes ::
  "lowercase \<Rightarrow> jsval \<Rightarrow> string \<Rightarrow> js_error + jsval" where
  "guarded_lower_includes lower v q = (if truthy v then lower_includes lower v q else Inr v)"

text \<open>\<^verbatim>\<open>Array.prototype.filter\<close> with a callback that may throw: the first throw ends it.\<close>

fun filter_throwing :: "('a \<Rightarrow> js_error + bool) \<Rightarrow> 'a list \<Rightarrow> js_error + 'a list" where
  "filter_throwing p [] = Inr []"
| "filter_throwing p (x # xs) =
     (case p x of
        Inl e \<Rightarrow> Inl e
      | Inr b \<Rightarrow>
          (case filter_throwing p xs of
             Inl e \<Rightarrow> Inl e
           | Inr ys \<Rightarrow> Inr (if b then x # ys else ys)))"

subsection \<open>\<^verbatim>\<open>filteredRepairs\<close> (\<^verbatim>\<open>repairs.tsx\<close>)\<close>

text \<open>The ten operands of \<^verbatim>\<open>matchesSearch\<close>, joined by \<^verbatim>\<open>||\<close> from the left.\<close>

definition repairs_matchesSearch :: "lowercase \<Rightarrow> jsobj \<Rightarrow> string \<Rightarrow> js_error + jsval" where
  "repairs_matchesSearch lower repair searchLower =
     or_else (or_else (or_else (or_else (or_else (or_else (or_else (or_else (or_else
       (opt_lower_includes lower (opt_field (field repair ''userInfo'') ''username'') searchLower)
       (opt_lower_includes lower (opt_field (field repair ''userDetails'') ''name'') searchLower))
       (opt_lower_includes lower (opt_field (field repair ''technicianInfo'') ''username'') searchLower))
       (opt_lower_includes lower (opt_field (field repair ''technicianDetails'') ''name'') searchLower))
       (guarded_lower_includes lower (field repair ''deviceType'') searchLower))
       (guarded_lower_includes lower (opt_field (field repair ''diagnosisData'') ''category'') searchLower))
       (guarded_lower_includes lower (opt_field (field repair ''diagnosisData'') ''brand'') searchLower))
       (guarded_lower_includes lower (field repair ''issue'') searchLower))
       (guarded_lower_includes lower (opt_field (field repair ''diagnosisData'') ''issue'') searchLower))
       (guarded_lower_includes lower (opt_field (field repair ''diagnosisData'') ''issueDescription'')
          searchLower)"

text \<open>
  The callback: \<^verbatim>\<open>if (typeFilter === "all") return matchesSearch;\<close>
  \<^verbatim>\<open>else return matchesSearch && repair.status?.global === typeFilter;\<close>
  as \<^verbatim>\<open>filter\<close> reads its result.
\<close>

definition repairs_keeps ::
  "lowercase \<Rightarrow> string \<Rightarrow> string \<Rightarrow> jsobj \<Rightarrow> js_error + bool" where
  "repairs_keeps lower searchTerm typeFilter repair =
     (case repairs_matchesSearch lower repair (lower searchTerm) of
        Inl e \<Rightarrow> Inl e
      | Inr m \<Rightarrow>
          Inr (if typeFilter = ''all'' then truthy m
               else truthy m \<and> opt_field (field repair ''status'') ''global'' = JStr typeFilter))"

definition filteredRepairs ::
  "lowercase \<Rightarrow> jsobj list \<Rightarrow> string \<Rightarrow> string \<Rightarrow> js_error + jsobj list" where
  "filteredRepairs lower repairs searchTerm typeFilter =
     filter_throwing (repairs_keeps lower searchTerm typeFilter) repairs"

subsection \<open>\<^verbatim>\<open>filteredAppointments\<close> (the appointments page)\<close>

definition appointment_userName :: "jsobj \<Rightarrow> jsval" where
  "appointment_userName a =
     js_or (js_or (js_or (opt_field (field a ''userInfo'') ''username'')
                         (opt_field (field a ''userDetails'') ''name''))
                  (opt_field (field a ''userDetails'') ''username''))
           (JStr ''Unknown'')"

definition appointment_techName :: "jsobj \<Rightarrow> jsval" where
  "appointment_techName a =
     js_or (js_or (js_or (opt_field (field a ''technicianInfo'') ''username'')
                         (opt_field (field a ''technicianDetails'') ''name''))
                  (opt_field (field a ''technicianDetails'') ''username''))
           (JStr ''Unknown'')"

definition appointment_deviceType :: "jsobj \<Rightarrow> jsval" where
  "appointment_deviceType a =
     js_or (js_or (js_or (field a ''deviceType'')
                         (opt_field (field a ''diagnosisData'') ''category''))
                  (opt_field (field a ''diagnosisData'') ''brand''))
           (JStr [])"

definition appointment_issue :: "jsobj \<Rightarrow> jsval" where
  "appointment_issue a =
     js_or (js_or (js_or (field a ''issue'')
                         (opt_field (field a ''diagnosisData'') ''issue''))
                  (opt_field (field a ''diagnosisData'') ''diagnosis''))
           (JStr [])"

definition appointments_matchesSearch ::
  "lowercase \<Rightarrow> jsobj \<Rightarrow> string \<Rightarrow> js_error + jsval" where
  "appointments_matchesSearch lower a searchLower =
     or_else (or_else (or_else
       (lower_includes lower (appointment_userName a) searchLower)
       (lower_includes lower (appointment_techName a) searchLower))
       (lower_includes lower (appointment_deviceType a) searchLower))
       (lower_includes lower (appointment_issue a) searchLower)"

text \<open>
  \<^verbatim>\<open>const matchesStatus = statusFilter === "all" || appointment.status?.global === statusFilter;\<close>
  \<^verbatim>\<open>return matchesSearch && matchesStatus;\<close>
\<close>

definition appointments_keeps ::
  "lowercase \<Rightarrow> string \<Rightarrow> string \<Rightarrow> jsobj \<Rightarrow> js_error + bool" where
  "appointments_keeps lower searchTerm statusFilter a =
     (case appointments_matchesSearch lower a (lower searchTerm) of
        Inl e \<Rightarrow> Inl e
      | Inr m \<Rightarrow>
          Inr (truthy m
               \<and> (statusFilter = ''all''
                  \<or> opt_field (field a ''status'') ''global'' = JStr statusFilter)))"

definition filteredAppointments ::
  "lowercase \<Rightarrow> jsobj list \<Rightarrow> string \<Rightarrow> string \<Rightarrow> js_error + jsobj list" where
  "filteredAppointments lower appointments searchTerm statusFilter =
     filter_throwing (appointments_keeps lower searchTerm statusFilter) appointments"


section \<open>The subscriptions and what each page renders\<close>

text \<open>
  What the subscription and the awaited work deliver to a page, as events. A delivery
  whose callback awaits \<^verbatim>\<open>Promise.all\<close> starts a resolution pass that completes later; the
  passes of one page are numbered by delivery, from 0. \<^verbatim>\<open>Resolved n rd\<close> is the completion
  of pass \<^verbatim>\<open>n\<close>, its point reads answered by \<^verbatim>\<open>rd\<close>; the completion of a pass that is
  not in flight is no event of the page and changes nothing. Nothing in the pages orders
  the completions or cancels a pass.
\<close>

datatype sub_event = Deliver snapshot | Resolved nat reads | SubscriptionError

text \<open>
  What a page puts on the screen: the loading state, the error state with its Retry
  button, the empty state, or one card per record of the filtered list. \<^verbatim>\<open>Crashed\<close> is a
  render that threw: React then takes the page off the screen, and no later event brings
  it back.

  The markup of a card and the markup of the details that open over the list are
  arguments of each render, \<^verbatim>\<open>card_markup\<close> and \<^verbatim>\<open>details\<close>: a function from what it is given to
  what it shows, or to the error it throws. What is proved about a render holds for every
  such markup, the pages' own included. The cards of the three pages are written out
  further down, with the errors their property reads and method calls throw.
\<close>

datatype 'c screen =
    Spinner
  | ErrorPanel string
  | EmptyPanel
  | CardGrid "'c list"
  | Crashed js_error

text \<open>\<^verbatim>\<open>list.map(card)\<close> with a callback that may throw: the first throw ends it.\<close>

fun map_throwing :: "('a \<Rightarrow> js_error + 'c) \<Rightarrow> 'a list \<Rightarrow> js_error + 'c list" where
  "map_throwing f [] = Inr []"
| "map_throwing f (x # xs) =
     (case f x of
        Inl e \<Rightarrow> Inl e
      | Inr y \<Rightarrow> (case map_throwing f xs of Inl e \<Rightarrow> Inl e | Inr ys \<Rightarrow> Inr (y # ys)))"

text \<open>
  \<^verbatim>\<open>{open && <details/>}\<close>: the error the markup of the details throws, if they are open
  and it throws.
\<close>

definition overlay_error :: "('a \<Rightarrow> js_error + 'm) \<Rightarrow> 'a option \<Rightarrow> js_error option" where
  "overlay_error details opened =
     (case opened of
        None \<Rightarrow> None
      | Some x \<Rightarrow> (case details x of Inl e \<Rightarrow> Some e | Inr m \<Rightarrow> None))"

text \<open>
  React puts a string or a number on the screen as text, and a boolean, null or
  undefined as nothing; an object given as text makes the render throw. (Arrays, which
  React would lay out item by item, are not told apart from other objects in this model;
  no field shown by a card is declared as one.) In the cards \<^verbatim>\<open>s.slice(0, n)\<close> is
  \<^term>\<open>take n s\<close>: \<^verbatim>\<open>slice\<close> counts UTF-16 units and \<^verbatim>\<open>take\<close> bytes, which is the same on
  the ASCII text of the ids Firestore generates.
\<close>

fun is_object :: "jsval \<Rightarrow> bool" where
  "is_object (JObj kvs) = True"
| "is_object v = False"

definition as_children :: "jsval list \<Rightarrow> js_error + jsval list" where
  "as_children vs = (if list_ex is_object vs then Inl InvalidChild else Inr vs)"

subsection \<open>Repairs\<close>

text \<open>
  The state of \<^verbatim>\<open>Repairs\<close> (its six \<^verbatim>\<open>useState\<close> values) and the passes in flight (the
  appointments each is resolving).
\<close>

record repairs_page =
  repairs :: "jsobj list"
  rp_loading :: bool
  rp_searchTerm :: string
  typeFilter :: string
  selectedRepair :: "jsobj option"
  showModal :: bool
  rp_in_flight :: "(nat \<times> jsobj list) list"
  rp_deliveries :: nat

definition repairs_initial :: repairs_page where
  "repairs_initial =
     \<lparr>repairs = [], rp_loading = True, rp_searchTerm = [], typeFilter = ''all'',
      selectedRepair = None, showModal = False, rp_in_flight = [], rp_deliveries = 0\<rparr>"

text \<open>\<^verbatim>\<open>snapshot.docs.map((doc) => ({ id: doc.id, ...doc.data() }))\<close>\<close>

definition appointment_docs :: "snapshot \<Rightarrow> jsobj list" where
  "appointment_docs snap = map (\<lambda>d. spread [(''id'', JStr (fst d))] (snd d)) snap"

text \<open>
  The snapshot callback up to its \<^verbatim>\<open>await\<close>: an empty result is stored at once
  (\<^verbatim>\<open>setRepairs([])\<close>, then the \<^verbatim>\<open>finally\<close> block), anything else waits for the pass.
\<close>

definition repairs_onSnapshot :: "snapshot \<Rightarrow> repairs_page \<Rightarrow> repairs_page" where
  "repairs_onSnapshot snap st =
     (let appointments = appointment_docs snap in
      if appointments = [] then
        st\<lparr>repairs := [], rp_loading := False, rp_deliveries := Suc (rp_deliveries st)\<rparr>
      else
        st\<lparr>rp_in_flight := rp_in_flight st @ [(rp_deliveries st, appointments)],
           rp_deliveries := Suc (rp_deliveries st)\<rparr>)"

text \<open>
  The callback after its \<^verbatim>\<open>await\<close>: \<^verbatim>\<open>setRepairs(processedAppointments)\<close> and the
  \<^verbatim>\<open>finally\<close> block. It stores whatever pass has just completed.
\<close>

definition repairs_onResolved :: "nat \<Rightarrow> reads \<Rightarrow> repairs_page \<Rightarrow> repairs_page" where
  "repairs_onResolved n rd st =
     (case map_of (rp_in_flight st) n of
        None \<Rightarrow> st
      | Some appointments \<Rightarrow>
          st\<lparr>repairs := map (\<lambda>a. fst (repairs_fetchUserAndTechnicianDetails rd a)) appointments,
             rp_loading := False,
             rp_in_flight := AList.delete n (rp_in_flight st)\<rparr>)"

text \<open>The error callback: \<^verbatim>\<open>// Don't set error state, just log it\<close>, \<^verbatim>\<open>setLoading(false)\<close>.\<close>

definition repairs_onError :: "repairs_page \<Rightarrow> repairs_page" where
  "repairs_onError st = st\<lparr>rp_loading := False\<rparr>"

fun repairs_step :: "repairs_page \<Rightarrow> sub_event \<Rightarrow> repairs_page" where
  "repairs_step st (Deliver snap) = repairs_onSnapshot snap st"
| "repairs_step st (Resolved n rd) = repairs_onResolved n rd st"
| "repairs_step st SubscriptionError = repairs_onError st"

definition repairs_run :: "sub_event list \<Rightarrow> repairs_page" where
  "repairs_run evs = foldl repairs_step repairs_initial evs"

text \<open>
  The component computes \<^verbatim>\<open>filteredRepairs\<close> first and returns the spinner while loading.
  Otherwise it returns the empty state or the cards
  (\<^verbatim>\<open>filteredRepairs.length === 0 ? ... : filteredRepairs.map(...)\<close>) and, after them, the
  details of the selected repair (\<^verbatim>\<open>showModal && selectedRepair && ...\<close>).
\<close>

definition repairs_render ::
  "lowercase \<Rightarrow> (jsobj \<Rightarrow> js_error + 'c) \<Rightarrow> (jsobj \<Rightarrow> js_error + 'm) \<Rightarrow> repairs_page
     \<Rightarrow> 'c screen" where
  "repairs_render lower card_markup details st =
     (case filteredRepairs lower (repairs st) (rp_searchTerm st) (typeFilter st) of
        Inl e \<Rightarrow> Crashed e
      | Inr shown \<Rightarrow>
          if rp_loading st then Spinner
          else
            (case map_throwing card_markup shown of
               Inl e \<Rightarrow> Crashed e
             | Inr cards \<Rightarrow>
                 (case overlay_error details
                         (if showModal st then selectedRepair st else None) of
                    Some e \<Rightarrow> Crashed e
                  | None \<Rightarrow> if shown = [] then EmptyPanel else CardGrid cards)))"

text \<open>
  What the page shows after an event: a page whose render threw is off the screen and
  stays so; any other page renders its new state.
\<close>

definition repairs_after ::
  "lowercase \<Rightarrow> (jsobj \<Rightarrow> js_error + 'c) \<Rightarrow> (jsobj \<Rightarrow> js_error + 'm) \<Rightarrow> repairs_page
     \<Rightarrow> sub_event \<Rightarrow> 'c screen" where
  "repairs_after lower card_markup details st e =
     (case repairs_render lower card_markup details st of
        Crashed x \<Rightarrow> Crashed x
      | _ \<Rightarrow> repairs_render lower card_markup details (repairs_step st e))"

text \<open>
  What the repair details show for the user and the technician:
  \<^verbatim>\<open>selectedRepair.userInfo?.username || selectedRepair.userDetails?.name || "Unknown"\<close>
  and the lines after it.
\<close>

definition repair_user_name :: "jsobj \<Rightarrow> jsval" where
  "repair_user_name r =
     js_or (js_or (opt_field (field r ''userInfo'') ''username'')
                  (opt_field (field r ''userDetails'') ''name'')) (JStr ''Unknown'')"

definition repair_user_email :: "jsobj \<Rightarrow> jsval" where
  "repair_user_email r =
     js_or (js_or (opt_field (field r ''userInfo'') ''email'')
                  (opt_field (field r ''userDetails'') ''email'')) (JStr ''N/A'')"

definition repair_user_phone :: "jsobj \<Rightarrow> jsval" where
  "repair_user_phone r =
     js_or (js_or (opt_field (field r ''userInfo'') ''phone'')
                  (opt_field (field r ''userDetails'') ''phone'')) (JStr ''N/A'')"

definition repair_technician_name :: "jsobj \<Rightarrow> jsval" where
  "repair_technician_name r =
     js_or (js_or (opt_field (field r ''technicianInfo'') ''username'')
                  (opt_field (field r ''technicianDetails'') ''name'')) (JStr ''Unknown'')"

definition repair_technician_email :: "jsobj \<Rightarrow> jsval" where
  "repair_technician_email r =
     js_or (opt_field (field r ''technicianInfo'') ''email'') (JStr ''N/A'')"

definition repair_technician_phone :: "jsobj \<Rightarrow> jsval" where
  "repair_technician_phone r =
     js_or (js_or (opt_field (field r ''technicianInfo'') ''phone'')
                  (opt_field (field r ''technicianDetails'') ''phone'')) (JStr ''N/A'')"

text \<open>
  The card of a repair, the markup under \<^verbatim>\<open>filteredRepairs.map\<close>: the values of the
  record it puts on the screen, in the order of the markup (the colour and the icon,
  which \<^verbatim>\<open>getStatusColor\<close> and \<^verbatim>\<open>getRepairTypeIcon\<close> compute by comparison alone, are left
  out). \<^verbatim>\<open>repair.id.slice(0, 8)\<close> throws unless the id is a string (the id is \<^verbatim>\<open>doc.id\<close>
  unless the document has a field \<^verbatim>\<open>id\<close> of its own), and \<^verbatim>\<open>repair.status.global\<close>, read
  with the plain dot, throws when \<^verbatim>\<open>status\<close> is null or undefined. Every other value is
  read with \<^verbatim>\<open>?.\<close> and \<^verbatim>\<open>||\<close>.
\<close>

definition repair_card :: "jsobj \<Rightarrow> js_error + jsval list" where
  "repair_card repair =
     (case field repair ''id'' of
        JStr ident \<Rightarrow>
          if nullish (field repair ''status'') then Inl TypeError
          else
            as_children
              [JStr (take 8 ident),
               opt_field (field repair ''status'') ''global'',
               repair_user_name repair,
               repair_technician_name repair,
               js_or (opt_field (field repair ''status'') ''global'') (JStr ''Unknown''),
               js_or (js_or (field repair ''deviceType'')
                            (opt_field (field repair ''diagnosisData'') ''category''))
                     (JStr ''N/A''),
               js_or (js_or (js_or (field repair ''issue'')
                                   (opt_field (field repair ''diagnosisData'')
                                      ''issueDescription''))
                            (opt_field (field repair ''diagnosisData'') ''issue''))
                     (JStr ''N/A''),
               js_or (field repair ''technicianType'') (JStr ''freelance'')]
      | _ \<Rightarrow> Inl TypeError)"

subsection \<open>Appointments\<close>

text \<open>
  The state of \<^verbatim>\<open>Appointments\<close> (its nine \<^verbatim>\<open>useState\<close> values) and the passes in flight.
\<close>

record appointments_page =
  appointments :: "jsobj list"
  ap_loading :: bool
  ap_error :: "string option"
  ap_searchTerm :: string
  statusFilter :: string
  showDiagnosisModal :: bool
  diagnosisLoading :: bool
  diagnosisError :: "string option"
  diagnosisData :: "jsobj option"
  ap_in_flight :: "(nat \<times> jsobj list) list"
  ap_deliveries :: nat

definition appointments_initial :: appointments_page where
  "appointments_initial =
     \<lparr>appointments = [], ap_loading = True, ap_error = None, ap_searchTerm = [],
      statusFilter = ''all'', showDiagnosisModal = False, diagnosisLoading = False,
      diagnosisError = None, diagnosisData = None, ap_in_flight = [], ap_deliveries = 0\<rparr>"

text \<open>The callback up to its \<^verbatim>\<open>await\<close>: \<^verbatim>\<open>setError(null)\<close>, then the pass, for every snapshot.\<close>

definition appointments_onSnapshot :: "snapshot \<Rightarrow> appointments_page \<Rightarrow> appointments_page" where
  "appointments_onSnapshot snap st =
     st\<lparr>ap_error := None,
        ap_in_flight := ap_in_flight st @ [(ap_deliveries st, appointment_docs snap)],
        ap_deliveries := Suc (ap_deliveries st)\<rparr>"

text \<open>After the \<^verbatim>\<open>await\<close>: \<^verbatim>\<open>setAppointments(processedAppointments); setLoading(false);\<close>\<close>

definition appointments_onResolved ::
  "nat \<Rightarrow> reads \<Rightarrow> appointments_page \<Rightarrow> appointments_page" where
  "appointments_onResolved n rd st =
     (case map_of (ap_in_flight st) n of
        None \<Rightarrow> st
      | Some docs \<Rightarrow>
          st\<lparr>appointments := map (\<lambda>a. fst (appointments_fetchUserAndTechnicianDetails rd a)) docs,
             ap_loading := False,
             ap_in_flight := AList.delete n (ap_in_flight st)\<rparr>)"

text \<open>The error callback: \<^verbatim>\<open>setError("Failed to connect to database"); setLoading(false);\<close>\<close>

definition appointments_onError :: "appointments_page \<Rightarrow> appointments_page" where
  "appointments_onError st =
     st\<lparr>ap_error := Some ''Failed to connect to database'', ap_loading := False\<rparr>"

fun appointments_step :: "appointments_page \<Rightarrow> sub_event \<Rightarrow> appointments_page" where
  "appointments_step st (Deliver snap) = appointments_onSnapshot snap st"
| "appointments_step st (Resolved n rd) = appointments_onResolved n rd st"
| "appointments_step st SubscriptionError = appointments_onError st"

definition appointments_run :: "sub_event list \<Rightarrow> appointments_page" where
  "appointments_run evs = foldl appointments_step appointments_initial evs"

text \<open>
  The last \<^verbatim>\<open>return\<close> of the component: the empty state or the cards and, after them,
  the diagnosis details (\<^verbatim>\<open>showDiagnosisModal && ...\<close>), whose markup reads
  \<^verbatim>\<open>diagnosisLoading\<close>, \<^verbatim>\<open>diagnosisError\<close> and \<^verbatim>\<open>diagnosisData\<close>.
\<close>

definition appointments_grid ::
  "(jsobj \<Rightarrow> js_error + 'c) \<Rightarrow> (bool \<times> string option \<times> jsobj option \<Rightarrow> js_error + 'm)
     \<Rightarrow> appointments_page \<Rightarrow> jsobj list \<Rightarrow> 'c screen" where
  "appointments_grid card_markup details st shown =
     (case map_throwing card_markup shown of
        Inl e \<Rightarrow> Crashed e
      | Inr cards \<Rightarrow>
          (case overlay_error details
                  (if showDiagnosisModal st
                   then Some (diagnosisLoading st, diagnosisError st, diagnosisData st)
                   else None) of
             Some e \<Rightarrow> Crashed e
           | None \<Rightarrow> if shown = [] then EmptyPanel else CardGrid cards))"

text \<open>
  \<^verbatim>\<open>filteredAppointments\<close> is computed first; then \<^verbatim>\<open>if (loading)\<close> returns the spinner,
  \<^verbatim>\<open>if (error)\<close> the error state with the Retry button, and the last \<^verbatim>\<open>return\<close> the grid.
\<close>

definition appointments_render ::
  "lowercase \<Rightarrow> (jsobj \<Rightarrow> js_error + 'c)
     \<Rightarrow> (bool \<times> string option \<times> jsobj option \<Rightarrow> js_error + 'm)
     \<Rightarrow> appointments_page \<Rightarrow> 'c screen" where
  "appointments_render lower card_markup details st =
     (case filteredAppointments lower (appointments st) (ap_searchTerm st) (statusFilter st) of
        Inl e \<Rightarrow> Crashed e
      | Inr shown \<Rightarrow>
          if ap_loading st then Spinner
          else (case ap_error st of
                  Some msg \<Rightarrow> if msg \<noteq> [] then ErrorPanel msg
                              else appointments_grid card_markup details st shown
                | None \<Rightarrow> appointments_grid card_markup details st shown))"

definition appointments_after ::
  "lowercase \<Rightarrow> (jsobj \<Rightarrow> js_error + 'c)
     \<Rightarrow> (bool \<times> string option \<times> jsobj option \<Rightarrow> js_error + 'm)
     \<Rightarrow> appointments_page \<Rightarrow> sub_event \<Rightarrow> 'c screen" where
  "appointments_after lower card_markup details st e =
     (case appointments_render lower card_markup details st of
        Crashed x \<Rightarrow> Crashed x
      | _ \<Rightarrow> appointments_render lower card_markup details (appointments_step st e))"

text \<open>
  The card of an appointment: the values of the record it puts on the screen, in the
  order of the markup, but for the date and the time, whose text is the platform's, and
  the colour. \<^verbatim>\<open>appointment.id.slice(0, 8)\<close> throws unless
  the id is a string, and \<^verbatim>\<open>appointment.status.global\<close> throws when \<^verbatim>\<open>status\<close> is null or
  undefined. In the date, \<^verbatim>\<open>scheduledDate?.toDate?.()\<close> and
  \<^verbatim>\<open>scheduledDate?.toLocaleDateString?.()\<close> call what they find: a stored map with a field
  of that name holds no function there, and the call throws; the second is evaluated only
  when the first gives nothing, as it does for every value without \<^verbatim>\<open>toDate\<close>.
\<close>

definition calls_non_function :: "jsval \<Rightarrow> string \<Rightarrow> bool" where
  "calls_non_function v name = (\<not> nullish (opt_field v name))"

definition appointment_card :: "jsobj \<Rightarrow> js_error + jsval list" where
  "appointment_card a =
     (case field a ''id'' of
        JStr ident \<Rightarrow>
          if nullish (field a ''status'') then Inl TypeError
          else if calls_non_function (field a ''scheduledDate'') ''toDate''
                  \<or> calls_non_function (field a ''scheduledDate'') ''toLocaleDateString''
          then Inl TypeError
          else
            as_children
              [JStr (take 8 ident),
               appointment_techName a,
               opt_field (field a ''status'') ''global'',
               appointment_userName a,
               js_or (js_or (js_or (field a ''deviceType'')
                                   (opt_field (field a ''diagnosisData'') ''category''))
                            (opt_field (field a ''diagnosisData'') ''brand''))
                     (JStr ''N/A''),
               js_or (js_or (js_or (field a ''issue'')
                                   (opt_field (field a ''diagnosisData'') ''issueDescription''))
                            (opt_field (field a ''diagnosisData'') ''issue''))
                     (JStr ''N/A'')]
      | _ \<Rightarrow> Inl TypeError)"


subsection \<open>Freelance technicians\<close>

text \<open>
  The state of \<^verbatim>\<open>Freelance\<close>. Its snapshot callback awaits nothing, so a delivery is
  stored at once and the page has no resolution pass.
\<close>

record freelance_page =
  freelancers :: "jsobj list"
  fl_loading :: bool
  selected :: "jsobj option"

definition freelance_initial :: freelance_page where
  "freelance_initial = \<lparr>freelancers = [], fl_loading = True, selected = None\<rparr>"

definition freelance_onSnapshot ::
  "lowercase \<Rightarrow> snapshot \<Rightarrow> freelance_page \<Rightarrow> freelance_page" where
  "freelance_onSnapshot lower snap st =
     st\<lparr>freelancers := freelanceTechs lower snap, fl_loading := False\<rparr>"

text \<open>The error callback: \<^verbatim>\<open>console.error(...); setLoading(false);\<close>\<close>

definition freelance_onError :: "freelance_page \<Rightarrow> freelance_page" where
  "freelance_onError st = st\<lparr>fl_loading := False\<rparr>"

fun freelance_step :: "lowercase \<Rightarrow> freelance_page \<Rightarrow> sub_event \<Rightarrow> freelance_page" where
  "freelance_step lower st (Deliver snap) = freelance_onSnapshot lower snap st"
| "freelance_step lower st (Resolved n rd) = st"
| "freelance_step lower st SubscriptionError = freelance_onError st"

definition freelance_run :: "lowercase \<Rightarrow> sub_event list \<Rightarrow> freelance_page" where
  "freelance_run lower evs = foldl (freelance_step lower) freelance_initial evs"

text \<open>
  \<^verbatim>\<open>loading ? <loading> : freelancers.length === 0 ? <empty-state> : <cards-grid>\<close>
  and, after it and whatever the loading state, \<^verbatim>\<open>selected && <details/>\<close>.
\<close>

definition freelance_render ::
  "(jsobj \<Rightarrow> js_error + 'c) \<Rightarrow> (jsobj \<Rightarrow> js_error + 'm) \<Rightarrow> freelance_page \<Rightarrow> 'c screen" where
  "freelance_render card_markup details st =
     (case (if fl_loading st then Inr [] else map_throwing card_markup (freelancers st)) of
        Inl e \<Rightarrow> Crashed e
      | Inr cards \<Rightarrow>
          (case overlay_error details (selected st) of
             Some e \<Rightarrow> Crashed e
           | None \<Rightarrow>
               if fl_loading st then Spinner
               else if freelancers st = [] then EmptyPanel
               else CardGrid cards))"

definition freelance_after ::
  "lowercase \<Rightarrow> (jsobj \<Rightarrow> js_error + 'c) \<Rightarrow> (jsobj \<Rightarrow> js_error + 'm) \<Rightarrow> freelance_page
     \<Rightarrow> sub_event \<Rightarrow> 'c screen" where
  "freelance_after lower card_markup details st e =
     (case freelance_render card_markup details st of
        Crashed x \<Rightarrow> Crashed x
      | _ \<Rightarrow> freelance_render card_markup details (freelance_step lower st e))"

text \<open>
  The card of a technician: its title, \<^verbatim>\<open>f.username || f.fullName || f.name\<close> or, when
  the three are falsy, the template with \<^verbatim>\<open>f.uid.slice(0, 6)\<close> after the word Freelancer
  and a middle dot (the bytes C2 B7 in UTF-8) between spaces. \<^verbatim>\<open>f.uid.slice\<close> is
  evaluated only then, and throws unless the uid is a string.
\<close>

definition freelance_card :: "jsobj \<Rightarrow> js_error + jsval list" where
  "freelance_card f =
     (if truthy (js_or (js_or (field f ''username'') (field f ''fullName'')) (field f ''name''))
      then as_children
             [js_or (js_or (field f ''username'') (field f ''fullName'')) (field f ''name'')]
      else (case field f ''uid'' of
              JStr uid \<Rightarrow> Inr [JStr (''Freelancer '' @ [CHR 0xC2, CHR 0xB7] @ '' '' @ take 6 uid)]
            | _ \<Rightarrow> Inl TypeError))"

section \<open>The delete action (\<^verbatim>\<open>handleDelete\<close> in \<^verbatim>\<open>freelance.tsx\<close>)\<close>

text \<open>
  Modelled from the spec: the store's merge-write (\<^verbatim>\<open>setDoc(ref, fields, { merge: true })\<close>
  is Firestore's, not this repository's). The fields written take their new values, every
  other field of the document is preserved, and a document that does not exist is created
  with the fields written. A write that fails changes nothing.
\<close>

definition mergeWrite ::
  "(string \<Rightarrow> jsobj option) \<Rightarrow> string \<Rightarrow> jsobj \<Rightarrow> (string \<Rightarrow> jsobj option)" where
  "mergeWrite coll ident payload =
     coll(ident \<mapsto> spread (case coll ident of None \<Rightarrow> [] | Some d \<Rightarrow> d) payload)"

text \<open>
  The object literal of the write, with \<^verbatim>\<open>new Date().toISOString()\<close> as \<^verbatim>\<open>now\<close>.
\<close>

definition deletion_fields :: "string \<Rightarrow> jsobj" where
  "deletion_fields now =
     [(''isDeleted'', JBool True), (''deletedAt'', JStr now), (''deletedBy'', JStr ''admin'')]"

text \<open>
  \<^verbatim>\<open>handleDelete\<close> is an async function with two awaits, so a call is in one of three
  places: not running, waiting for the confirmation dialog's answer, or waiting for the
  write (to a document id, with the fields sent).
\<close>

datatype phase = Idle | Confirming jsobj | Writing string jsobj

text \<open>
  The page together with what the action can touch outside it: the documents of the
  \<^verbatim>\<open>technicians\<close> collection and below it, by their path from the collection (for a
  document of the collection itself, its id), the merge-writes sent so far and the alerts
  shown so far.

  \<^verbatim>\<open>doc(db, "technicians", uid)\<close> is Firestore's, and what it makes of a string is a
  part of the world too, \<^verbatim>\<open>doc_ref\<close>: it throws (as on \<^verbatim>\<open>"a/b"\<close>, which is the path of a
  collection) or gives the reference of a document, here its path from the collection.
  No step changes it.
\<close>

record freelance_world =
  fw_page :: freelance_page
  fw_phase :: phase
  technicians :: "string \<Rightarrow> jsobj option"
  doc_ref :: "string \<Rightarrow> js_error + string"
  merge_writes :: "(string \<times> jsobj) list"
  alerts :: "string list"

text \<open>
  What happens to a call: the click on Delete, the dialog's answer (the promise of
  \<^verbatim>\<open>confirmation.confirm\<close> resolves to true or false; \<^verbatim>\<open>hooks/useConfirmation\<close> is not
  among the sources, so its answer is an event), and the store's answer to the write.
  \<^verbatim>\<open>Confirm now\<close> carries the clock's reading when the write is built.
\<close>

datatype action_event =
    ClickDelete jsobj
  | Confirm string
  | Cancel
  | WriteSucceeded
  | WriteFailed

text \<open>\<^verbatim>\<open>if (!freelancer?.uid) return;\<close> and then the dialog opens.\<close>

definition handleDelete_called :: "jsobj \<Rightarrow> freelance_world \<Rightarrow> freelance_world" where
  "handleDelete_called freelancer w =
     (if \<not> truthy (field freelancer ''uid'') then w
      else w\<lparr>fw_phase := Confirming freelancer\<rparr>)"

text \<open>
  \<^verbatim>\<open>if (ok) { try { await setDoc(doc(db, "technicians", freelancer.uid), {...}, { merge: true });\<close>
  When \<^verbatim>\<open>doc\<close> throws, on a uid that is not a string or on a string it refuses, no write
  is sent: the throw is inside the \<^verbatim>\<open>try\<close>, which ends in the \<^verbatim>\<open>catch\<close> block as a
  failed write does. Otherwise the write is sent to the document \<^verbatim>\<open>doc\<close> gave.
\<close>

definition failure_alert :: string where
  "failure_alert = ''Failed to delete. Check console for details.''"

definition handleDelete_answered :: "bool \<Rightarrow> string \<Rightarrow> jsobj \<Rightarrow> freelance_world \<Rightarrow> freelance_world" where
  "handleDelete_answered ok now freelancer w =
     (if ok then
        (case field freelancer ''uid'' of
           JStr uid \<Rightarrow>
             (case doc_ref w uid of
                Inl e \<Rightarrow> w\<lparr>fw_phase := Idle, alerts := alerts w @ [failure_alert]\<rparr>
              | Inr target \<Rightarrow>
                  w\<lparr>fw_phase := Writing target (deletion_fields now),
                    merge_writes := merge_writes w @ [(target, deletion_fields now)]\<rparr>)
         | _ \<Rightarrow> w\<lparr>fw_phase := Idle, alerts := alerts w @ [failure_alert]\<rparr>)
      else w\<lparr>fw_phase := Idle\<rparr>)"

text \<open>
  After the write: \<^verbatim>\<open>setSelected(null)\<close> when it succeeded, and in the \<^verbatim>\<open>catch\<close> block
  \<^verbatim>\<open>console.error(...); alert("Failed to delete. Check console for details.");\<close>
\<close>

definition handleDelete_written :: "bool \<Rightarrow> string \<Rightarrow> jsobj \<Rightarrow> freelance_world \<Rightarrow> freelance_world" where
  "handleDelete_written succeeded target payload w =
     (if succeeded then
        w\<lparr>fw_phase := Idle,
          technicians := mergeWrite (technicians w) target payload,
          fw_page := (fw_page w)\<lparr>selected := None\<rparr>\<rparr>
      else w\<lparr>fw_phase := Idle, alerts := alerts w @ [failure_alert]\<rparr>)"

text \<open>An event that the call is not waiting for changes nothing.\<close>

fun action_step :: "freelance_world \<Rightarrow> action_event \<Rightarrow> freelance_world" where
  "action_step w (ClickDelete freelancer) =
     (case fw_phase w of Idle \<Rightarrow> handleDelete_called freelancer w | _ \<Rightarrow> w)"
| "action_step w (Confirm now) =
     (case fw_phase w of Confirming freelancer \<Rightarrow> handleDelete_answered True now freelancer w
                       | _ \<Rightarrow> w)"
| "action_step w Cancel =
     (case fw_phase w of Confirming freelancer \<Rightarrow> handleDelete_answered False [] freelancer w
                       | _ \<Rightarrow> w)"
| "action_step w WriteSucceeded =
     (case fw_phase w of Writing target payload \<Rightarrow> handleDelete_written True target payload w
                       | _ \<Rightarrow> w)"
| "action_step w WriteFailed =
     (case fw_phase w of Writing target payload \<Rightarrow> handleDelete_written False target payload w
                       | _ \<Rightarrow> w)"

definition action_run :: "freelance_world \<Rightarrow> action_event list \<Rightarrow> freelance_world" where
  "action_run w evs = foldl action_step w evs"

fun is_Confirm :: "action_event \<Rightarrow> bool" where
  "is_Confirm (Confirm now) = True"
| "is_Confirm e = False"


section \<open>Declared types and example data\<close>


text \<open>
  Three technician documents: approved without a shop, approved with a shop, pending.
\<close>

definition three_technicians :: snapshot where
  "three_technicians =
     [(''t1'', [(''username'', JStr ''ana''), (''status'', JStr ''Approved''),
                (''hasShop'', JBool False)]),
      (''t2'', [(''username'', JStr ''ben''), (''status'', JStr ''approved''),
                (''hasShop'', JBool True)]),
      (''t3'', [(''username'', JStr ''cy''), (''status'', JStr ''pending'')])]"

text \<open>
  The ten values \<^verbatim>\<open>matchesSearch\<close> of the repairs page reads from a record, in the
  order of its operands.
\<close>

definition repairs_search_fields :: "jsobj \<Rightarrow> jsval list" where
  "repairs_search_fields repair =
     [opt_field (field repair ''userInfo'') ''username'',
      opt_field (field repair ''userDetails'') ''name'',
      opt_field (field repair ''technicianInfo'') ''username'',
      opt_field (field repair ''technicianDetails'') ''name'',
      field repair ''deviceType'',
      opt_field (field repair ''diagnosisData'') ''category'',
      opt_field (field repair ''diagnosisData'') ''brand'',
      field repair ''issue'',
      opt_field (field repair ''diagnosisData'') ''issue'',
      opt_field (field repair ''diagnosisData'') ''issueDescription'']"

text \<open>
  The four values \<^verbatim>\<open>matchesSearch\<close> of the appointments page tests: \<^verbatim>\<open>userName\<close>,
  \<^verbatim>\<open>techName\<close>, \<^verbatim>\<open>deviceType\<close> and \<^verbatim>\<open>issue\<close>.
\<close>

definition appointment_display_fields :: "jsobj \<Rightarrow> jsval list" where
  "appointment_display_fields a =
     [appointment_userName a, appointment_techName a, appointment_deviceType a,
      appointment_issue a]"

text \<open>
  The interfaces declare every searchable field as an optional string: a value that is a
  string or absent (undefined or null), and a value that is a string.
\<close>

fun text_or_absent :: "jsval \<Rightarrow> bool" where
  "text_or_absent JUndefined = True"
| "text_or_absent JNull = True"
| "text_or_absent (JStr s) = True"
| "text_or_absent v = False"

fun is_text :: "jsval \<Rightarrow> bool" where
  "is_text (JStr s) = True"
| "is_text v = False"

text \<open>
  The matching rule in words: the value is a string, and the search term occurs in it
  when both are lower-cased. A value that is not there matches nothing.
\<close>

fun matches_text :: "lowercase \<Rightarrow> string \<Rightarrow> jsval \<Rightarrow> bool" where
  "matches_text lower q (JStr s) = includes_str (lower s) (lower q)"
| "matches_text lower q v = False"

text \<open>
  Three resolved repairs: one with a user and a device type, one whose device is known
  only through \<^verbatim>\<open>diagnosisData\<close> (brand "iPhone"), one with none of the searchable fields.
\<close>

definition laptop_repair :: jsobj where
  "laptop_repair =
     [(''id'', JStr ''r1''), (''status'', JObj [(''global'', JStr ''Completed'')]),
      (''userInfo'', JObj [(''username'', JStr ''Maria''), (''email'', JStr ''maria@mail.test''),
                          (''phone'', JStr ''N/A'')]),
      (''deviceType'', JStr ''Laptop''), (''issue'', JStr ''Broken hinge'')]"

definition iphone_repair :: jsobj where
  "iphone_repair =
     [(''id'', JStr ''r2''), (''status'', JObj [(''global'', JStr ''Repairing'')]),
      (''diagnosisData'', JObj [(''category'', JStr ''Smartphone''), (''brand'', JStr ''iPhone''),
                               (''issue'', JStr ''Cracked screen'')])]"

definition bare_repair :: jsobj where
  "bare_repair = [(''id'', JStr ''r3''), (''status'', JObj [(''global'', JStr ''Testing'')])]"

text \<open>
  Firestore's rule for the path in \<^verbatim>\<open>doc(db, collection, id)\<close>, for the example stores:
  an id with \<^verbatim>\<open>//\<close> in it is refused; otherwise the id is cut at its slashes and the
  empty pieces are dropped, and the pieces must be odd in number, since the path of a
  document, the collection's name included, has an even number of segments. One piece is
  the id of a document of the collection; three or more name a document below one.
\<close>

fun path_pieces :: "string \<Rightarrow> string list" where
  "path_pieces [] = [[]]"
| "path_pieces (c # cs) =
     (if c = CHR ''/'' then [] # path_pieces cs
      else (case path_pieces cs of
              [] \<Rightarrow> [[c]]
            | piece # pieces \<Rightarrow> (c # piece) # pieces))"

fun join_path :: "string list \<Rightarrow> string" where
  "join_path [] = []"
| "join_path [piece] = piece"
| "join_path (piece # next_piece # pieces) = piece @ ''/'' @ join_path (next_piece # pieces)"

definition document_path :: "string \<Rightarrow> js_error + string" where
  "document_path ident =
     (if includes_str ident ''//''
         \<or> even (length (filter (\<lambda>piece. piece \<noteq> []) (path_pieces ident)))
      then Inl FirestoreError
      else Inr (join_path (filter (\<lambda>piece. piece \<noteq> []) (path_pieces ident))))"

text \<open>
  A snapshot of the \<^verbatim>\<open>appointments\<close> collection with one document: a completed repair of
  a laptop that names no user and no technician.
\<close>

definition one_repair :: snapshot where
  "one_repair =
     [(''r1'', [(''status'', JObj [(''global'', JStr ''Completed'')]),
               (''deviceType'', JStr ''Laptop''), (''issue'', JStr ''Broken hinge'')])]"

text \<open>
  The freelance page with the first of the three technicians selected, over a
  \<^verbatim>\<open>technicians\<close> collection that holds the three documents.
\<close>

definition ana :: jsobj where
  "ana = [(''uid'', JStr ''t1''), (''username'', JStr ''ana''), (''status'', JStr ''Approved''),
          (''hasShop'', JBool False)]"

definition ana_selected :: freelance_world where
  "ana_selected =
     \<lparr>fw_page = \<lparr>freelancers = [ana], fl_loading = False, selected = Some ana\<rparr>,
      fw_phase = Idle,
      technicians = map_of three_technicians,
      doc_ref = document_path,
      merge_writes = [],
      alerts = []\<rparr>"

text \<open>
  The resolved form of a snapshot: what a page stores when the pass over that snapshot
  completes, its point reads answered by \<^verbatim>\<open>rd\<close>.
\<close>

definition repairs_resolved :: "reads \<Rightarrow> snapshot \<Rightarrow> jsobj list" where
  "repairs_resolved rd snap =
     map (\<lambda>a. fst (repairs_fetchUserAndTechnicianDetails rd a)) (appointment_docs snap)"

definition appointments_resolved :: "reads \<Rightarrow> snapshot \<Rightarrow> jsobj list" where
  "appointments_resolved rd snap =
     map (\<lambda>a. fst (appointments_fetchUserAndTechnicianDetails rd a)) (appointment_docs snap)"

text \<open>A store in which every point read that \<^verbatim>\<open>doc\<close> lets through finds no document.\<close>

definition empty_store :: reads where
  "empty_store coll ident =
     (case document_path ident of Inl e \<Rightarrow> Inl e | Inr path \<Rightarrow> Inr Missing)"

text \<open>
  Two stores with the same \<^verbatim>\<open>technicians\<close> collection (one technician, \<^verbatim>\<open>t1\<close>): in the
  first every read of \<^verbatim>\<open>users\<close> fails, in the second the user \<^verbatim>\<open>u1\<close> exists.
\<close>

definition users_unreadable :: reads where
  "users_unreadable coll ident =
     (if coll = ''technicians'' \<and> ident = ''t1''
      then Inr (Existing [(''fullName'', JStr ''Tom Cruz''), (''phone'', JStr ''0917'')])
      else if coll = ''users'' then Inl FirestoreError
      else (case document_path ident of Inl e \<Rightarrow> Inl e | Inr path \<Rightarrow> Inr Missing))"

definition users_readable :: reads where
  "users_readable coll ident =
     (if coll = ''technicians'' \<and> ident = ''t1''
      then Inr (Existing [(''fullName'', JStr ''Tom Cruz''), (''phone'', JStr ''0917'')])
      else if coll = ''users'' \<and> ident = ''u1''
      then Inr (Existing [(''name'', JStr ''Maria''), (''email'', JStr ''maria@mail.test'')])
      else (case document_path ident of Inl e \<Rightarrow> Inl e | Inr path \<Rightarrow> Inr Missing))"

text \<open>An appointment that refers to its user and its technician by id only.\<close>

definition by_id_only :: jsobj where
  "by_id_only = [(''id'', JStr ''a1''), (''userId'', JStr ''u1''), (''technicianId'', JStr ''t1'')]"

section \<open>Basic facts\<close>

lemma field_set_field: "field (set_field k v obj) k' = (if k' = k then v else field obj k')"
  by (simp add: field_def set_field_def update_conv)

lemma field_spread_other:
  "k \<notin> fst ` set extra \<Longrightarrow> field (spread base extra) k = field base k"
  unfolding spread_def
  by (induction extra arbitrary: base) (auto simp: field_set_field)

lemma includes_str_sublist: "includes_str s t = sublist t s"
  by (induction s) (auto simp: sublist_Cons_right)

lemma includes_str_Nil: "includes_str s []"
  by (cases s) auto


section \<open>The freelance view model\<close>




section \<open>The filters\<close>

lemma filter_throwing_Inr:
  "filter_throwing p xs = Inr ys \<Longrightarrow>
     ys = filter (\<lambda>x. p x = Inr True) xs \<and> list_all (\<lambda>x. \<exists>b. p x = Inr b) xs"
  by (induction xs arbitrary: ys) (auto split: sum.splits if_splits)

lemma filter_throwing_total:
  "list_all (\<lambda>x. \<exists>b. p x = Inr b) xs \<Longrightarrow>
     filter_throwing p xs = Inr (filter (\<lambda>x. p x = Inr True) xs)"
  by (induction xs) (auto split: sum.splits)

lemma filter_throwing_idem:
  assumes "filter_throwing p xs = Inr ys"
  shows "filter_throwing p ys = Inr ys"
proof -
  from filter_throwing_Inr [OF assms]
  have ys: "ys = filter (\<lambda>x. p x = Inr True) xs" by simp
  then have "list_all (\<lambda>x. \<exists>b. p x = Inr b) ys"
    by (auto simp: list_all_iff)
  from filter_throwing_total [OF this] show ?thesis
    by (simp add: ys)
qed

lemma filter_throwing_subseq: "filter_throwing p xs = Inr ys \<Longrightarrow> subseq ys xs"
  by (auto dest: filter_throwing_Inr)

lemma nullish_not_truthy: "nullish v \<Longrightarrow> \<not> truthy v"
  by (cases v) auto

lemma ascii_lower_eq_Nil: "(ascii_lower s = []) = (s = [])"
  by (simp add: ascii_lower_def)

lemma includes_str_nonempty: "includes_str s t \<Longrightarrow> t \<noteq> [] \<Longrightarrow> s \<noteq> []"
  by (cases s) auto

lemma or_else_yields:
  "\<exists>x. a = Inr x \<and> truthy x = P \<Longrightarrow> \<exists>y. b = Inr y \<and> truthy y = Q \<Longrightarrow>
     \<exists>m. or_else a b = Inr m \<and> truthy m = (P \<or> Q)"
  by (auto simp: or_else_def)

lemma opt_lower_includes_yields:
  "text_or_absent v \<Longrightarrow>
     \<exists>x. opt_lower_includes lower v (lower q) = Inr x \<and> truthy x = matches_text lower q v"
  by (cases v) (auto simp: opt_lower_includes_def)

lemma guarded_lower_includes_yields:
  assumes "text_or_absent v" and "q \<noteq> []" and "\<forall>s. (lower s = []) = (s = [])"
  shows "\<exists>x. guarded_lower_includes lower v (lower q) = Inr x
             \<and> truthy x = matches_text lower q v"
proof -
  from assms have "lower [] = []" and "lower q \<noteq> []"
    by blast+
  with assms(1) show ?thesis
    by (cases v) (auto simp: guarded_lower_includes_def)
qed

lemma lower_includes_yields:
  "is_text v \<Longrightarrow>
     \<exists>x. lower_includes lower v (lower q) = Inr x \<and> truthy x = matches_text lower q v"
  by (cases v) auto

lemma repairs_matchesSearch_typed:
  assumes "list_all text_or_absent (repairs_search_fields r)" and "q \<noteq> []"
      and "\<forall>s. (lower s = []) = (s = [])"
  shows "\<exists>m. repairs_matchesSearch lower r (lower q) = Inr m
            \<and> truthy m = list_ex (matches_text lower q) (repairs_search_fields r)"
proof -
  have "\<exists>m. repairs_matchesSearch lower r (lower q) = Inr m
            \<and> truthy m = (((((((((matches_text lower q (opt_field (field r ''userInfo'') ''username'')
               \<or> matches_text lower q (opt_field (field r ''userDetails'') ''name''))
               \<or> matches_text lower q (opt_field (field r ''technicianInfo'') ''username''))
               \<or> matches_text lower q (opt_field (field r ''technicianDetails'') ''name''))
               \<or> matches_text lower q (field r ''deviceType''))
               \<or> matches_text lower q (opt_field (field r ''diagnosisData'') ''category''))
               \<or> matches_text lower q (opt_field (field r ''diagnosisData'') ''brand''))
               \<or> matches_text lower q (field r ''issue''))
               \<or> matches_text lower q (opt_field (field r ''diagnosisData'') ''issue''))
               \<or> matches_text lower q (opt_field (field r ''diagnosisData'') ''issueDescription''))"
    unfolding repairs_matchesSearch_def
    using assms
    by (intro or_else_yields opt_lower_includes_yields guarded_lower_includes_yields)
       (simp_all add: repairs_search_fields_def)
  then show ?thesis
    by (simp add: repairs_search_fields_def)
qed

lemma appointments_matchesSearch_typed:
  assumes "list_all is_text (appointment_display_fields a)"
  shows "\<exists>m. appointments_matchesSearch lower a (lower q) = Inr m
            \<and> truthy m = list_ex (matches_text lower q) (appointment_display_fields a)"
proof -
  have "\<exists>m. appointments_matchesSearch lower a (lower q) = Inr m
            \<and> truthy m = (((matches_text lower q (appointment_userName a)
               \<or> matches_text lower q (appointment_techName a))
               \<or> matches_text lower q (appointment_deviceType a))
               \<or> matches_text lower q (appointment_issue a))"
    unfolding appointments_matchesSearch_def
    using assms
    by (intro or_else_yields lower_includes_yields)
       (simp_all add: appointment_display_fields_def)
  then show ?thesis
    by (simp add: appointment_display_fields_def)
qed

lemma repairs_keeps_typed:
  assumes "list_all text_or_absent (repairs_search_fields r)" and "q \<noteq> []"
      and "\<forall>s. (lower s = []) = (s = [])"
  shows "repairs_keeps lower q f r =
           Inr (list_ex (matches_text lower q) (repairs_search_fields r)
                \<and> (f = ''all'' \<or> opt_field (field r ''status'') ''global'' = JStr f))"
  using repairs_matchesSearch_typed [OF assms]
  by (auto simp: repairs_keeps_def)

lemma appointments_keeps_typed:
  assumes "list_all is_text (appointment_display_fields a)"
  shows "appointments_keeps lower q f a =
           Inr (list_ex (matches_text lower q) (appointment_display_fields a)
                \<and> (f = ''all'' \<or> opt_field (field a ''status'') ''global'' = JStr f))"
  using appointments_matchesSearch_typed [OF assms, of lower q]
  by (auto simp: appointments_keeps_def)

subsection \<open>On records of the declared types the filters return\<close>

lemma or_else_returns:
  "\<exists>x. a = Inr x \<Longrightarrow> \<exists>y. b = Inr y \<Longrightarrow> \<exists>m. or_else a b = Inr m"
  by (auto simp: or_else_def)

lemma opt_lower_includes_returns:
  "text_or_absent v \<Longrightarrow> \<exists>x. opt_lower_includes lower v ql = Inr x"
  by (cases v) (auto simp: opt_lower_includes_def)

lemma guarded_lower_includes_returns:
  "text_or_absent v \<Longrightarrow> \<exists>x. guarded_lower_includes lower v ql = Inr x"
  by (cases v) (auto simp: guarded_lower_includes_def)

lemma lower_includes_returns: "is_text v \<Longrightarrow> \<exists>x. lower_includes lower v ql = Inr x"
  by (cases v) auto

lemma repairs_keeps_returns:
  assumes "list_all text_or_absent (repairs_search_fields r)"
  shows "\<exists>b. repairs_keeps lower q f r = Inr b"
proof -
  have "\<exists>m. repairs_matchesSearch lower r (lower q) = Inr m"
    unfolding repairs_matchesSearch_def
    using assms
    by (intro or_else_returns opt_lower_includes_returns guarded_lower_includes_returns)
       (simp_all add: repairs_search_fields_def)
  then show ?thesis
    by (auto simp: repairs_keeps_def)
qed

lemma appointments_keeps_returns:
  assumes "list_all is_text (appointment_display_fields a)"
  shows "\<exists>b. appointments_keeps lower q f a = Inr b"
proof -
  have "\<exists>m. appointments_matchesSearch lower a (lower q) = Inr m"
    unfolding appointments_matchesSearch_def
    using assms
    by (intro or_else_returns lower_includes_returns)
       (simp_all add: appointment_display_fields_def)
  then show ?thesis
    by (auto simp: appointments_keeps_def)
qed

lemma filteredRepairs_returns:
  assumes "list_all (\<lambda>r. list_all text_or_absent (repairs_search_fields r)) rs"
  shows "\<exists>ys. filteredRepairs lower rs q f = Inr ys"
proof -
  from assms have "list_all (\<lambda>r. \<exists>b. repairs_keeps lower q f r = Inr b) rs"
    by (auto simp: list_all_iff intro: repairs_keeps_returns)
  from filter_throwing_total [OF this] show ?thesis
    by (auto simp: filteredRepairs_def)
qed

lemma filteredAppointments_returns:
  assumes "list_all (\<lambda>a. list_all is_text (appointment_display_fields a)) as"
  shows "\<exists>bs. filteredAppointments lower as q f = Inr bs"
proof -
  from assms have "list_all (\<lambda>a. \<exists>b. appointments_keeps lower q f a = Inr b) as"
    by (auto simp: list_all_iff intro: appointments_keeps_returns)
  from filter_throwing_total [OF this] show ?thesis
    by (auto simp: filteredAppointments_def)
qed

lemmas example_repairs_defs =
  laptop_repair_def iphone_repair_def bare_repair_def

lemmas filter_eval_defs =
  filteredRepairs_def repairs_keeps_def repairs_matchesSearch_def
  filteredAppointments_def appointments_keeps_def appointments_matchesSearch_def
  appointment_userName_def appointment_techName_def appointment_deviceType_def
  appointment_issue_def opt_lower_includes_def guarded_lower_includes_def or_else_def
  js_or_def field_def ascii_lower_def lower_char_def

text \<open>
  C5. Both filters are functions of the records, the search term and the status filter
  alone. Whenever a filter returns a list, applying it again with the same term and
  status returns that list unchanged, and the list keeps the records in the order of the
  input (it is a subsequence of the input).
\<close>

theorem filters_idempotent_and_order_preserving:
  "(filteredRepairs lower rs q f = Inr ys \<longrightarrow> filteredRepairs lower ys q f = Inr ys \<and> subseq ys rs)
   \<and> (filteredAppointments lower as q f = Inr bs
        \<longrightarrow> filteredAppointments lower bs q f = Inr bs \<and> subseq bs as)"
  unfolding filteredRepairs_def filteredAppointments_def
  by (blast intro: filter_throwing_idem filter_throwing_subseq)

theorem filters_idempotent_and_order_preserving_witness:
  "filteredRepairs ascii_lower [laptop_repair, iphone_repair, bare_repair] ''o'' ''all''
     = Inr [laptop_repair, iphone_repair]
   \<and> filteredRepairs ascii_lower [laptop_repair, iphone_repair] ''o'' ''all''
     = Inr [laptop_repair, iphone_repair]
   \<and> subseq [laptop_repair, iphone_repair] [laptop_repair, iphone_repair, bare_repair]
   \<and> filteredAppointments ascii_lower [laptop_repair, iphone_repair, bare_repair] ''Maria'' ''Completed''
     = Inr [laptop_repair]
   \<and> filteredAppointments ascii_lower [laptop_repair] ''Maria'' ''Completed'' = Inr [laptop_repair]
   \<and> subseq [laptop_repair] [laptop_repair, iphone_repair, bare_repair]"
proof -
  have r: "filteredRepairs ascii_lower [laptop_repair, iphone_repair, bare_repair] ''o'' ''all''
             = Inr [laptop_repair, iphone_repair]"
    by (simp add: filter_eval_defs example_repairs_defs)
  have a: "filteredAppointments ascii_lower [laptop_repair, iphone_repair, bare_repair] ''Maria''
             ''Completed'' = Inr [laptop_repair]"
    by (simp add: filter_eval_defs example_repairs_defs)
  from r a
    filters_idempotent_and_order_preserving
      [of ascii_lower "[laptop_repair, iphone_repair, bare_repair]" "''o''" "''all''"
          "[laptop_repair, iphone_repair]" "[laptop_repair, iphone_repair, bare_repair]"
          "[laptop_repair]"]
    filters_idempotent_and_order_preserving
      [of ascii_lower "[]" "''Maria''" "''Completed''" "[]"
          "[laptop_repair, iphone_repair, bare_repair]" "[laptop_repair]"]
  show ?thesis by simp
qed

text \<open>
  C4, as the code has it. Take a search term that is not empty; \<^verbatim>\<open>lower\<close> is the
  platform's \<^verbatim>\<open>toLowerCase\<close>, of which only this is used: it gives the empty string for
  the empty string and for no other. A repair whose ten searchable fields are each a
  string or absent (undefined or null) passes the search exactly when the lower-cased
  term occurs in the lower-cased value of one of those fields that is a string, so an
  absent field contributes no match. An appointment whose four display values are
  strings passes exactly when the lower-cased term occurs in the lower-cased form of one
  of them; each display value is the first truthy value of its fallback chain. When every
  value of a name's chain is falsy the display value is the text "Unknown", which is
  searched like any name; when every value of the device's or the issue's chain is falsy
  it is the empty string, which no term matches. In both views the record must also pass
  the status filter: the filter is "all" or equal to \<^verbatim>\<open>status.global\<close>.
\<close>

theorem search_matches_display_fields:
  assumes "q \<noteq> []" and "\<forall>s. (lower s = []) = (s = [])"
  shows "(list_all text_or_absent (repairs_search_fields r) \<longrightarrow>
            repairs_keeps lower q f r =
              Inr (list_ex (matches_text lower q) (repairs_search_fields r)
                   \<and> (f = ''all'' \<or> opt_field (field r ''status'') ''global'' = JStr f)))
       \<and> (list_all is_text (appointment_display_fields a) \<longrightarrow>
            appointments_keeps lower q f a =
              Inr (list_ex (matches_text lower q) (appointment_display_fields a)
                   \<and> (f = ''all'' \<or> opt_field (field a ''status'') ''global'' = JStr f)))
       \<and> (\<not> truthy (opt_field (field a ''userInfo'') ''username'')
          \<and> \<not> truthy (opt_field (field a ''userDetails'') ''name'')
          \<and> \<not> truthy (opt_field (field a ''userDetails'') ''username'')
          \<longrightarrow> appointment_userName a = JStr ''Unknown'')
       \<and> (\<not> truthy (opt_field (field a ''technicianInfo'') ''username'')
          \<and> \<not> truthy (opt_field (field a ''technicianDetails'') ''name'')
          \<and> \<not> truthy (opt_field (field a ''technicianDetails'') ''username'')
          \<longrightarrow> appointment_techName a = JStr ''Unknown'')
       \<and> (\<not> truthy (field a ''deviceType'')
          \<and> \<not> truthy (opt_field (field a ''diagnosisData'') ''category'')
          \<and> \<not> truthy (opt_field (field a ''diagnosisData'') ''brand'')
          \<longrightarrow> appointment_deviceType a = JStr []
               \<and> \<not> matches_text lower q (appointment_deviceType a))
       \<and> (\<not> truthy (field a ''issue'')
          \<and> \<not> truthy (opt_field (field a ''diagnosisData'') ''issue'')
          \<and> \<not> truthy (opt_field (field a ''diagnosisData'') ''diagnosis'')
          \<longrightarrow> appointment_issue a = JStr [] \<and> \<not> matches_text lower q (appointment_issue a))"
proof -
  from assms have "lower [] = []" and "lower q \<noteq> []"
    by blast+
  then have empty: "\<not> matches_text lower q (JStr [])"
    by simp
  have repair: "list_all text_or_absent (repairs_search_fields r) \<longrightarrow>
            repairs_keeps lower q f r =
              Inr (list_ex (matches_text lower q) (repairs_search_fields r)
                   \<and> (f = ''all'' \<or> opt_field (field r ''status'') ''global'' = JStr f))"
    using repairs_keeps_typed [OF _ assms] by blast
  have appointment: "list_all is_text (appointment_display_fields a) \<longrightarrow>
            appointments_keeps lower q f a =
              Inr (list_ex (matches_text lower q) (appointment_display_fields a)
                   \<and> (f = ''all'' \<or> opt_field (field a ''status'') ''global'' = JStr f))"
    using appointments_keeps_typed by blast
  have chains: "(\<not> truthy (opt_field (field a ''userInfo'') ''username'')
          \<and> \<not> truthy (opt_field (field a ''userDetails'') ''name'')
          \<and> \<not> truthy (opt_field (field a ''userDetails'') ''username'')
          \<longrightarrow> appointment_userName a = JStr ''Unknown'')
       \<and> (\<not> truthy (opt_field (field a ''technicianInfo'') ''username'')
          \<and> \<not> truthy (opt_field (field a ''technicianDetails'') ''name'')
          \<and> \<not> truthy (opt_field (field a ''technicianDetails'') ''username'')
          \<longrightarrow> appointment_techName a = JStr ''Unknown'')
       \<and> (\<not> truthy (field a ''deviceType'')
          \<and> \<not> truthy (opt_field (field a ''diagnosisData'') ''category'')
          \<and> \<not> truthy (opt_field (field a ''diagnosisData'') ''brand'')
          \<longrightarrow> appointment_deviceType a = JStr [])
       \<and> (\<not> truthy (field a ''issue'')
          \<and> \<not> truthy (opt_field (field a ''diagnosisData'') ''issue'')
          \<and> \<not> truthy (opt_field (field a ''diagnosisData'') ''diagnosis'')
          \<longrightarrow> appointment_issue a = JStr [])"
    by (simp add: appointment_userName_def appointment_techName_def appointment_deviceType_def
        appointment_issue_def js_or_def)
  from chains empty
  have defaults: "(\<not> truthy (field a ''deviceType'')
          \<and> \<not> truthy (opt_field (field a ''diagnosisData'') ''category'')
          \<and> \<not> truthy (opt_field (field a ''diagnosisData'') ''brand'')
          \<longrightarrow> appointment_deviceType a = JStr []
               \<and> \<not> matches_text lower q (appointment_deviceType a))
       \<and> (\<not> truthy (field a ''issue'')
          \<and> \<not> truthy (opt_field (field a ''diagnosisData'') ''issue'')
          \<and> \<not> truthy (opt_field (field a ''diagnosisData'') ''diagnosis'')
          \<longrightarrow> appointment_issue a = JStr [] \<and> \<not> matches_text lower q (appointment_issue a))"
    by auto
  from repair appointment chains defaults show ?thesis
    by blast
qed

text \<open>
  The scenario of the search for "iphone": the repair whose \<^verbatim>\<open>deviceType\<close> is absent and
  whose \<^verbatim>\<open>diagnosisData.brand\<close> is "iPhone" matches. As an appointment the same record
  does not: its category "Smartphone" comes first in the device's chain.
\<close>

theorem search_matches_display_fields_witness:
  "''iphone'' \<noteq> []
   \<and> (\<forall>s. (ascii_lower s = []) = (s = []))
   \<and> list_all text_or_absent (repairs_search_fields iphone_repair)
   \<and> field iphone_repair ''deviceType'' = JUndefined
   \<and> repairs_keeps ascii_lower ''iphone'' ''all'' iphone_repair = Inr True
   \<and> list_all is_text (appointment_display_fields iphone_repair)
   \<and> appointments_keeps ascii_lower ''iphone'' ''all'' iphone_repair = Inr False
   \<and> appointment_userName iphone_repair = JStr ''Unknown''
   \<and> appointment_techName iphone_repair = JStr ''Unknown''
   \<and> appointment_issue bare_repair = JStr []"
proof -
  have q: "''iphone'' \<noteq> []" by simp
  have low: "\<forall>s. (ascii_lower s = []) = (s = [])"
    by (simp add: ascii_lower_eq_Nil)
  have typed: "list_all text_or_absent (repairs_search_fields iphone_repair)"
    by (simp add: repairs_search_fields_def iphone_repair_def field_def)
  have shown: "list_all is_text (appointment_display_fields iphone_repair)"
    by (simp add: appointment_display_fields_def appointment_userName_def
        appointment_techName_def appointment_deviceType_def appointment_issue_def
        js_or_def iphone_repair_def field_def)
  have absent: "field iphone_repair ''deviceType'' = JUndefined"
    by (simp add: iphone_repair_def field_def)
  have hit: "list_ex (matches_text ascii_lower ''iphone'') (repairs_search_fields iphone_repair)"
    by (simp add: repairs_search_fields_def iphone_repair_def field_def ascii_lower_def
        lower_char_def)
  have miss: "\<not> list_ex (matches_text ascii_lower ''iphone'')
                  (appointment_display_fields iphone_repair)"
    by (simp add: appointment_display_fields_def appointment_userName_def
        appointment_techName_def appointment_deviceType_def appointment_issue_def
        js_or_def iphone_repair_def field_def ascii_lower_def lower_char_def)
  have names: "\<not> truthy (opt_field (field iphone_repair ''userInfo'') ''username'')
      \<and> \<not> truthy (opt_field (field iphone_repair ''userDetails'') ''name'')
      \<and> \<not> truthy (opt_field (field iphone_repair ''userDetails'') ''username'')
      \<and> \<not> truthy (opt_field (field iphone_repair ''technicianInfo'') ''username'')
      \<and> \<not> truthy (opt_field (field iphone_repair ''technicianDetails'') ''name'')
      \<and> \<not> truthy (opt_field (field iphone_repair ''technicianDetails'') ''username'')"
    by (simp add: iphone_repair_def field_def)
  have bare: "\<not> truthy (field bare_repair ''issue'')
      \<and> \<not> truthy (opt_field (field bare_repair ''diagnosisData'') ''issue'')
      \<and> \<not> truthy (opt_field (field bare_repair ''diagnosisData'') ''diagnosis'')"
    by (simp add: bare_repair_def field_def)
  from search_matches_display_fields [OF q low, of iphone_repair "''all''" iphone_repair]
    search_matches_display_fields [OF q low, of iphone_repair "''all''" bare_repair]
    low typed shown absent hit miss names bare
  show ?thesis by simp
qed

text \<open>
  The claim's last part fails in the appointments view: an appointment with none of the
  display fields is found by the search for "unknown".
\<close>

theorem absent_name_matches_unknown:
  "appointment_docs [(''a1'', [(''status'', JObj [(''global'', JStr ''Scheduled'')])])]
     = [[(''id'', JStr ''a1''), (''status'', JObj [(''global'', JStr ''Scheduled'')])]]
   \<and> list_all
       (\<lambda>k. field [(''id'', JStr ''a1''), (''status'', JObj [(''global'', JStr ''Scheduled'')])] k
              = JUndefined)
       [''userInfo'', ''userDetails'', ''technicianInfo'', ''technicianDetails'',
        ''deviceType'', ''issue'', ''diagnosisData'']
   \<and> filteredAppointments ascii_lower
       [[(''id'', JStr ''a1''), (''status'', JObj [(''global'', JStr ''Scheduled'')])]]
       ''unknown'' ''all''
     = Inr [[(''id'', JStr ''a1''), (''status'', JObj [(''global'', JStr ''Scheduled'')])]]"
  by (simp add: filter_eval_defs appointment_docs_def spread_def set_field_def)

text \<open>
  C10. In the repairs view a record on which all ten searchable fields are absent is
  kept by no search term and no status filter. In particular, with the empty term and
  the filter "all" it is not in the view model, so the filter is not the identity.
\<close>

theorem repairs_filter_drops_record_without_fields:
  assumes "list_all nullish (repairs_search_fields r)"
  shows "repairs_keeps lower q f r = Inr False
         \<and> filteredRepairs lower [r] [] ''all'' = Inr []
         \<and> (filteredRepairs lower rs [] ''all'' = Inr shown \<longrightarrow> r \<notin> set shown)"
proof -
  have "repairs_matchesSearch lower r ql
          = Inr (opt_field (field r ''diagnosisData'') ''issueDescription'')" for ql
    using assms
    by (simp add: repairs_matchesSearch_def repairs_search_fields_def opt_lower_includes_def
        guarded_lower_includes_def or_else_def nullish_not_truthy)
  moreover have "\<not> truthy (opt_field (field r ''diagnosisData'') ''issueDescription'')"
    using assms by (simp add: repairs_search_fields_def nullish_not_truthy)
  ultimately have drop: "repairs_keeps lower q' f' r = Inr False" for q' f'
    by (simp add: repairs_keeps_def)
  have "r \<notin> set shown" if "filteredRepairs lower rs [] ''all'' = Inr shown"
    using filter_throwing_Inr [OF that [unfolded filteredRepairs_def]] drop
    by simp
  with drop show ?thesis
    by (simp add: filteredRepairs_def)
qed

theorem repairs_filter_drops_record_without_fields_witness:
  "list_all nullish (repairs_search_fields bare_repair)
   \<and> repairs_keeps ascii_lower [] ''all'' bare_repair = Inr False
   \<and> filteredRepairs ascii_lower [bare_repair] [] ''all'' = Inr []
   \<and> filteredRepairs ascii_lower [laptop_repair, iphone_repair, bare_repair] [] ''all''
       = Inr [laptop_repair, iphone_repair]
   \<and> bare_repair \<notin> set [laptop_repair, iphone_repair]"
proof -
  have absent: "list_all nullish (repairs_search_fields bare_repair)"
    by (simp add: repairs_search_fields_def bare_repair_def field_def)
  have all: "filteredRepairs ascii_lower [laptop_repair, iphone_repair, bare_repair] [] ''all''
       = Inr [laptop_repair, iphone_repair]"
    by (simp add: filter_eval_defs example_repairs_defs)
  from repairs_filter_drops_record_without_fields
         [OF absent, of ascii_lower "[]" "''all''" "[laptop_repair, iphone_repair, bare_repair]"
            "[laptop_repair, iphone_repair]"] absent all
  show ?thesis by simp
qed

section \<open>The delete action\<close>

lemma spread_deletion_fields:
  "spread d (deletion_fields now) =
     set_field ''deletedBy'' (JStr ''admin'')
       (set_field ''deletedAt'' (JStr now) (set_field ''isDeleted'' (JBool True) d))"
  by (simp add: spread_def deletion_fields_def)

lemma field_after_deletion:
  "field (spread d (deletion_fields now)) k =
     (if k = ''deletedBy'' then JStr ''admin''
      else if k = ''deletedAt'' then JStr now
      else if k = ''isDeleted'' then JBool True
      else field d k)"
  by (simp add: spread_deletion_fields field_set_field)

lemma field_Nil: "field [] k = JUndefined"
  by (simp add: field_def)

lemma action_run_Nil: "action_run w [] = w"
  by (simp add: action_run_def)

lemma action_run_Cons: "action_run w (e # evs) = action_run (action_step w e) evs"
  by (simp add: action_run_def)

lemma action_step_keeps_store:
  assumes "\<not> is_Confirm e" and "\<forall>uid payload. fw_phase w \<noteq> Writing uid payload"
  shows "merge_writes (action_step w e) = merge_writes w
         \<and> technicians (action_step w e) = technicians w
         \<and> (\<forall>uid payload. fw_phase (action_step w e) \<noteq> Writing uid payload)"
  using assms
  by (cases e; cases "fw_phase w")
     (auto simp: handleDelete_called_def handleDelete_answered_def)

lemma no_confirm_no_write:
  assumes "list_all (\<lambda>e. \<not> is_Confirm e) evs"
      and "\<forall>uid payload. fw_phase w \<noteq> Writing uid payload"
  shows "merge_writes (action_run w evs) = merge_writes w
         \<and> technicians (action_run w evs) = technicians w"
  using assms
proof (induction evs arbitrary: w)
  case Nil
  then show ?case by (simp add: action_run_Nil)
next
  case (Cons e evs)
  from Cons.prems have e: "\<not> is_Confirm e" and rest: "list_all (\<lambda>e. \<not> is_Confirm e) evs"
    by simp_all
  from action_step_keeps_store [OF e Cons.prems(2)] Cons.IH [OF rest, of "action_step w e"]
  show ?case by (simp add: action_run_Cons)
qed

text \<open>
  C6. When the user confirms the deletion of a technician whose uid is a non-empty
  string that \<^verbatim>\<open>doc\<close> takes as the id of a document of the collection (as it does every
  id the page got from a snapshot), and the write succeeds, \<^verbatim>\<open>handleDelete\<close> sends one
  merge-write, to the document of that uid, whose fields are exactly \<^verbatim>\<open>isDeleted: true\<close>,
  \<^verbatim>\<open>deletedAt\<close> (the timestamp) and \<^verbatim>\<open>deletedBy: "admin"\<close>. Afterwards the document has
  these three values, every other field of it is as before, every other document is as
  before, the selection is cleared and no alert is shown.
\<close>

theorem soft_delete_writes_three_fields:
  fixes now :: string
  assumes "field freelancer ''uid'' = JStr uid" and "uid \<noteq> []"
      and "doc_ref w uid = Inr uid" and "fw_phase w = Idle"
  defines "w' \<equiv> action_run w [ClickDelete freelancer, Confirm now, WriteSucceeded]"
  shows "merge_writes w' =
           merge_writes w @ [(uid, [(''isDeleted'', JBool True), (''deletedAt'', JStr now),
                                    (''deletedBy'', JStr ''admin'')])]
       \<and> (\<exists>d'. technicians w' uid = Some d'
              \<and> field d' ''isDeleted'' = JBool True
              \<and> field d' ''deletedAt'' = JStr now
              \<and> field d' ''deletedBy'' = JStr ''admin''
              \<and> (\<forall>k. k \<notin> {''isDeleted'', ''deletedAt'', ''deletedBy''} \<longrightarrow>
                    field d' k = (case technicians w uid of None \<Rightarrow> JUndefined
                                  | Some d \<Rightarrow> field d k)))
       \<and> (\<forall>other. other \<noteq> uid \<longrightarrow> technicians w' other = technicians w other)
       \<and> selected (fw_page w') = None
       \<and> fw_phase w' = Idle
       \<and> alerts w' = alerts w"
proof -
  have run: "w' = w\<lparr>fw_phase := Idle,
                     merge_writes := merge_writes w @ [(uid, deletion_fields now)],
                     technicians := mergeWrite (technicians w) uid (deletion_fields now),
                     fw_page := (fw_page w)\<lparr>selected := None\<rparr>\<rparr>"
    using assms(1-4) unfolding w'_def
    by (simp add: action_run_def handleDelete_called_def handleDelete_answered_def
        handleDelete_written_def)
  have sent: "merge_writes w' =
           merge_writes w @ [(uid, [(''isDeleted'', JBool True), (''deletedAt'', JStr now),
                                    (''deletedBy'', JStr ''admin'')])]"
    by (simp add: run deletion_fields_def)
  have stored: "technicians w' uid =
      Some (spread (case technicians w uid of None \<Rightarrow> [] | Some d \<Rightarrow> d) (deletion_fields now))"
    by (simp add: run mergeWrite_def)
  have kept: "field (spread (case technicians w uid of None \<Rightarrow> [] | Some d \<Rightarrow> d)
                     (deletion_fields now)) k
              = (case technicians w uid of None \<Rightarrow> JUndefined | Some d \<Rightarrow> field d k)"
    if "k \<notin> {''isDeleted'', ''deletedAt'', ''deletedBy''}" for k
    using that by (cases "technicians w uid") (simp_all add: field_after_deletion field_Nil)
  have others: "technicians w' other = technicians w other" if "other \<noteq> uid" for other
    using that by (simp add: run mergeWrite_def)
  have rest: "selected (fw_page w') = None \<and> fw_phase w' = Idle \<and> alerts w' = alerts w"
    by (simp add: run)
  from sent stored kept others rest show ?thesis
    by (simp add: field_after_deletion)
qed

theorem soft_delete_writes_three_fields_witness:
  "field ana ''uid'' = JStr ''t1'' \<and> ''t1'' \<noteq> []
   \<and> doc_ref ana_selected ''t1'' = Inr ''t1'' \<and> fw_phase ana_selected = Idle
   \<and> merge_writes
        (action_run ana_selected
           [ClickDelete ana, Confirm ''2024-05-01T10:00:00.000Z'', WriteSucceeded])
      = [(''t1'', [(''isDeleted'', JBool True), (''deletedAt'', JStr ''2024-05-01T10:00:00.000Z''),
                   (''deletedBy'', JStr ''admin'')])]
   \<and> technicians
        (action_run ana_selected
           [ClickDelete ana, Confirm ''2024-05-01T10:00:00.000Z'', WriteSucceeded]) ''t1''
      = Some [(''username'', JStr ''ana''), (''status'', JStr ''Approved''),
              (''hasShop'', JBool False), (''isDeleted'', JBool True),
              (''deletedAt'', JStr ''2024-05-01T10:00:00.000Z''), (''deletedBy'', JStr ''admin'')]
   \<and> technicians
        (action_run ana_selected
           [ClickDelete ana, Confirm ''2024-05-01T10:00:00.000Z'', WriteSucceeded]) ''t2''
      = technicians ana_selected ''t2''
   \<and> selected (fw_page
        (action_run ana_selected
           [ClickDelete ana, Confirm ''2024-05-01T10:00:00.000Z'', WriteSucceeded])) = None"
proof -
  have uid: "field ana ''uid'' = JStr ''t1''"
    by (simp add: ana_def field_def)
  have nonempty: "''t1'' \<noteq> []"
    by simp
  have idle: "fw_phase ana_selected = Idle"
    by (simp add: ana_selected_def)
  have named: "doc_ref ana_selected ''t1'' = Inr ''t1''"
    by (simp add: ana_selected_def document_path_def)
  have stored: "technicians
        (action_run ana_selected
           [ClickDelete ana, Confirm ''2024-05-01T10:00:00.000Z'', WriteSucceeded]) ''t1''
      = Some [(''username'', JStr ''ana''), (''status'', JStr ''Approved''),
              (''hasShop'', JBool False), (''isDeleted'', JBool True),
              (''deletedAt'', JStr ''2024-05-01T10:00:00.000Z''), (''deletedBy'', JStr ''admin'')]"
    using uid
    by (simp add: action_run_def handleDelete_called_def handleDelete_answered_def
        handleDelete_written_def mergeWrite_def spread_deletion_fields set_field_def
        ana_selected_def three_technicians_def document_path_def)
  have start: "merge_writes ana_selected = []"
    by (simp add: ana_selected_def)
  from soft_delete_writes_three_fields
         [OF uid nonempty named idle, of "''2024-05-01T10:00:00.000Z''"]
       uid named idle stored start
  show ?thesis by simp
qed

text \<open>
  C7. A call of \<^verbatim>\<open>handleDelete\<close> that starts when no other is running: as long as the
  user has not confirmed, whatever else happens, no write has been sent and the store is
  unchanged; a click followed by Cancel leaves the store, the selection and everything
  else as they were; when the write fails, the store and the page (the selection with
  it) are unchanged and the call has ended, and for a record with a uid the dialog was
  opened by the click and the alert "Failed to delete. Check console for details." is
  shown.
\<close>

theorem delete_action_state_machine:
  assumes "fw_phase w = Idle"
  shows "(list_all (\<lambda>e. \<not> is_Confirm e) evs \<longrightarrow>
            merge_writes (action_run w evs) = merge_writes w
            \<and> technicians (action_run w evs) = technicians w)
       \<and> action_run w [ClickDelete freelancer, Cancel] = w
       \<and> technicians (action_run w [ClickDelete freelancer, Confirm now, WriteFailed])
           = technicians w
       \<and> fw_page (action_run w [ClickDelete freelancer, Confirm now, WriteFailed]) = fw_page w
       \<and> fw_phase (action_run w [ClickDelete freelancer, Confirm now, WriteFailed]) = Idle
       \<and> (truthy (field freelancer ''uid'') \<longrightarrow>
            fw_phase (action_run w [ClickDelete freelancer]) = Confirming freelancer
            \<and> alerts (action_run w [ClickDelete freelancer, Confirm now, WriteFailed])
                = alerts w @ [failure_alert])"
proof -
  have idle: "\<forall>uid payload. fw_phase w \<noteq> Writing uid payload"
    using assms by simp
  have quiet: "list_all (\<lambda>e. \<not> is_Confirm e) evs \<longrightarrow>
            merge_writes (action_run w evs) = merge_writes w
            \<and> technicians (action_run w evs) = technicians w"
    using no_confirm_no_write [OF _ idle] by blast
  have cancel: "action_run w [ClickDelete freelancer, Cancel] = w"
    using assms by (simp add: action_run_def handleDelete_called_def handleDelete_answered_def)
  have failed: "technicians (action_run w [ClickDelete freelancer, Confirm now, WriteFailed])
           = technicians w
       \<and> fw_page (action_run w [ClickDelete freelancer, Confirm now, WriteFailed]) = fw_page w
       \<and> fw_phase (action_run w [ClickDelete freelancer, Confirm now, WriteFailed]) = Idle
       \<and> (truthy (field freelancer ''uid'') \<longrightarrow>
            fw_phase (action_run w [ClickDelete freelancer]) = Confirming freelancer
            \<and> alerts (action_run w [ClickDelete freelancer, Confirm now, WriteFailed])
                = alerts w @ [failure_alert])"
    using assms
    by (cases "field freelancer ''uid''")
       (simp_all add: action_run_def handleDelete_called_def handleDelete_answered_def
          handleDelete_written_def split: sum.splits)
  from quiet cancel failed show ?thesis by blast
qed

theorem delete_action_state_machine_witness:
  "fw_phase ana_selected = Idle
   \<and> list_all (\<lambda>e. \<not> is_Confirm e) [ClickDelete ana, WriteSucceeded, Cancel, ClickDelete ana]
   \<and> merge_writes
        (action_run ana_selected [ClickDelete ana, WriteSucceeded, Cancel, ClickDelete ana]) = []
   \<and> technicians
        (action_run ana_selected [ClickDelete ana, WriteSucceeded, Cancel, ClickDelete ana])
      = map_of three_technicians
   \<and> action_run ana_selected [ClickDelete ana, Cancel] = ana_selected
   \<and> truthy (field ana ''uid'')
   \<and> fw_phase (action_run ana_selected [ClickDelete ana]) = Confirming ana
   \<and> technicians (action_run ana_selected [ClickDelete ana, Confirm ''now'', WriteFailed])
      = map_of three_technicians
   \<and> selected (fw_page (action_run ana_selected [ClickDelete ana, Confirm ''now'', WriteFailed]))
      = Some ana
   \<and> alerts (action_run ana_selected [ClickDelete ana, Confirm ''now'', WriteFailed])
      = [''Failed to delete. Check console for details.'']"
proof -
  have idle: "fw_phase ana_selected = Idle"
    by (simp add: ana_selected_def)
  have quiet: "list_all (\<lambda>e. \<not> is_Confirm e)
                 [ClickDelete ana, WriteSucceeded, Cancel, ClickDelete ana]"
    by simp
  have uid: "truthy (field ana ''uid'')"
    by (simp add: ana_def field_def)
  have start: "technicians ana_selected = map_of three_technicians
               \<and> merge_writes ana_selected = [] \<and> alerts ana_selected = []
               \<and> selected (fw_page ana_selected) = Some ana"
    by (simp add: ana_selected_def)
  from delete_action_state_machine
         [OF idle, of "[ClickDelete ana, WriteSucceeded, Cancel, ClickDelete ana]" ana "''now''"]
       idle quiet uid start
  show ?thesis by (simp add: failure_alert_def)
qed

section \<open>Deliveries that race\<close>


lemma repairs_resolved_Nil: "repairs_resolved rd [] = []"
  by (simp add: repairs_resolved_def appointment_docs_def)







lemmas resolver_eval_defs =
  repairs_resolved_def appointments_resolved_def appointment_docs_def spread_def set_field_def
  repairs_fetchUserAndTechnicianDetails_def repairs_fetches_user_def
  repairs_fetches_technician_def repairs_userInfo_def repairs_technicianInfo_def
  repairs_userDetails_def repairs_technicianDetails_def try_fetch_def getDoc_def
  appointments_fetchUserAndTechnicianDetails_def appointments_lookup_def
  appointments_fetches_def contact_snapshot_def js_or_def field_def empty_store_def
  document_path_def




subsection \<open>Whatever the order of events, the stored set is one snapshot's\<close>

lemma repairs_run_snoc: "repairs_run (evs @ [e]) = repairs_step (repairs_run evs) e"
  by (simp add: repairs_run_def)

lemma appointments_run_snoc:
  "appointments_run (evs @ [e]) = appointments_step (appointments_run evs) e"
  by (simp add: appointments_run_def)

lemma in_flight_delete: "(n, x) \<in> set (AList.delete k al) \<Longrightarrow> (n, x) \<in> set al"
  by (induction al) (auto split: if_splits)

lemma repairs_in_flight_delivered:
  "(n, docs) \<in> set (rp_in_flight (repairs_run evs)) \<Longrightarrow>
     \<exists>snap. Deliver snap \<in> set evs \<and> docs = appointment_docs snap"
proof (induction evs arbitrary: n docs rule: rev_induct)
  case Nil
  then show ?case by (simp add: repairs_run_def repairs_initial_def)
next
  case (snoc e evs)
  show ?case
  proof (cases e)
    case (Deliver snap)
    with snoc show ?thesis
      by (auto simp: repairs_run_snoc repairs_onSnapshot_def Let_def split: if_splits)
  next
    case (Resolved k rd)
    with snoc show ?thesis
      by (auto simp: repairs_run_snoc repairs_onResolved_def split: option.splits
          dest: in_flight_delete)
  next
    case SubscriptionError
    with snoc show ?thesis
      by (auto simp: repairs_run_snoc repairs_onError_def)
  qed
qed

lemma appointments_in_flight_delivered:
  "(n, docs) \<in> set (ap_in_flight (appointments_run evs)) \<Longrightarrow>
     \<exists>snap. Deliver snap \<in> set evs \<and> docs = appointment_docs snap"
proof (induction evs arbitrary: n docs rule: rev_induct)
  case Nil
  then show ?case by (simp add: appointments_run_def appointments_initial_def)
next
  case (snoc e evs)
  show ?case
  proof (cases e)
    case (Deliver snap)
    with snoc show ?thesis
      by (auto simp: appointments_run_snoc appointments_onSnapshot_def)
  next
    case (Resolved k rd)
    with snoc show ?thesis
      by (auto simp: appointments_run_snoc appointments_onResolved_def split: option.splits
          dest: in_flight_delete)
  next
    case SubscriptionError
    with snoc show ?thesis
      by (auto simp: appointments_run_snoc appointments_onError_def)
  qed
qed

text \<open>
  After any sequence of deliveries, completions and errors, the records a page holds are
  the resolved form of one snapshot that was delivered, or the empty list: never a mix
  of two snapshots.
\<close>

lemma repairs_stored_set_is_one_snapshot:
  "repairs (repairs_run evs) = []
   \<or> (\<exists>snap rd. Deliver snap \<in> set evs
         \<and> repairs (repairs_run evs) = repairs_resolved rd snap)"
proof (induction evs rule: rev_induct)
  case Nil
  then show ?case by (simp add: repairs_run_def repairs_initial_def)
next
  case (snoc e evs)
  show ?case
  proof (cases e)
    case (Deliver snap)
    with snoc show ?thesis
      by (auto simp: repairs_run_snoc repairs_onSnapshot_def Let_def)
  next
    case (Resolved k rd)
    show ?thesis
    proof (cases "map_of (rp_in_flight (repairs_run evs)) k")
      case None
      with snoc Resolved show ?thesis
        by (auto simp: repairs_run_snoc repairs_onResolved_def)
    next
      case (Some docs)
      then have "(k, docs) \<in> set (rp_in_flight (repairs_run evs))"
        by (rule map_of_SomeD)
      from repairs_in_flight_delivered [OF this]
      obtain snap where "Deliver snap \<in> set evs" and "docs = appointment_docs snap"
        by blast
      with Some Resolved show ?thesis
        by (auto simp: repairs_run_snoc repairs_onResolved_def repairs_resolved_def)
    qed
  next
    case SubscriptionError
    with snoc show ?thesis
      by (auto simp: repairs_run_snoc repairs_onError_def)
  qed
qed

lemma appointments_stored_set_is_one_snapshot:
  "appointments (appointments_run evs) = []
   \<or> (\<exists>snap rd. Deliver snap \<in> set evs
         \<and> appointments (appointments_run evs) = appointments_resolved rd snap)"
proof (induction evs rule: rev_induct)
  case Nil
  then show ?case by (simp add: appointments_run_def appointments_initial_def)
next
  case (snoc e evs)
  show ?case
  proof (cases e)
    case (Deliver snap)
    with snoc show ?thesis
      by (auto simp: appointments_run_snoc appointments_onSnapshot_def)
  next
    case (Resolved k rd)
    show ?thesis
    proof (cases "map_of (ap_in_flight (appointments_run evs)) k")
      case None
      with snoc Resolved show ?thesis
        by (auto simp: appointments_run_snoc appointments_onResolved_def)
    next
      case (Some docs)
      then have "(k, docs) \<in> set (ap_in_flight (appointments_run evs))"
        by (rule map_of_SomeD)
      from appointments_in_flight_delivered [OF this]
      obtain snap where "Deliver snap \<in> set evs" and "docs = appointment_docs snap"
        by blast
      with Some Resolved show ?thesis
        by (auto simp: appointments_run_snoc appointments_onResolved_def
            appointments_resolved_def)
    qed
  next
    case SubscriptionError
    with snoc show ?thesis
      by (auto simp: appointments_run_snoc appointments_onError_def)
  qed
qed

section \<open>A subscription error\<close>

lemma filter_throwing_Nil: "filter_throwing p [] = Inr []"
  by simp

lemma repairs_onError_idle: "\<not> rp_loading st \<Longrightarrow> repairs_onError st = st"
  by (cases st) (simp add: repairs_onError_def)

lemma freelance_onError_idle: "\<not> fl_loading st \<Longrightarrow> freelance_onError st = st"
  by (cases st) (simp add: freelance_onError_def)

lemma repairs_render_Spinner:
  "repairs_render lower card_markup details st = Spinner \<Longrightarrow> rp_loading st"
  by (simp add: repairs_render_def split: sum.splits if_splits option.splits)

lemma freelance_render_Spinner:
  "freelance_render card_markup details st = Spinner \<Longrightarrow> fl_loading st"
  by (simp add: freelance_render_def split: sum.splits if_splits option.splits)

lemma repairs_render_no_error_state:
  "repairs_render lower card_markup details st \<noteq> ErrorPanel msg"
  by (simp add: repairs_render_def split: sum.splits option.splits)

lemma freelance_render_no_error_state:
  "freelance_render card_markup details st \<noteq> ErrorPanel msg"
  by (simp add: freelance_render_def split: sum.splits option.splits)

lemma repairs_after_error:
  assumes "rp_loading st \<longrightarrow> repairs st = [] \<and> \<not> showModal st"
  shows "repairs_after lower card_markup details st SubscriptionError
           = (case repairs_render lower card_markup details st of
                Spinner \<Rightarrow> EmptyPanel
              | shown \<Rightarrow> shown)"
proof (cases "rp_loading st")
  case True
  with assms have "repairs st = []" and "\<not> showModal st"
    by simp_all
  with True show ?thesis
    by (simp add: repairs_after_def repairs_render_def repairs_onError_def filteredRepairs_def
        overlay_error_def)
next
  case False
  then have same: "repairs_onError st = st"
    by (rule repairs_onError_idle)
  from False have "repairs_render lower card_markup details st \<noteq> Spinner"
    using repairs_render_Spinner by blast
  then show ?thesis
    by (cases "repairs_render lower card_markup details st")
       (simp_all add: repairs_after_def same)
qed

lemma freelance_after_error:
  assumes "fl_loading st \<longrightarrow> freelancers st = []"
  shows "freelance_after lower card_markup details st SubscriptionError
           = (case freelance_render card_markup details st of
                Spinner \<Rightarrow> EmptyPanel
              | shown \<Rightarrow> shown)"
proof (cases "fl_loading st")
  case True
  with assms have "freelancers st = []"
    by simp
  with True show ?thesis
    by (cases "overlay_error details (selected st)")
       (simp_all add: freelance_after_def freelance_render_def freelance_onError_def)
next
  case False
  then have same: "freelance_onError st = st"
    by (rule freelance_onError_idle)
  from False have "freelance_render card_markup details st \<noteq> Spinner"
    using freelance_render_Spinner by blast
  then show ?thesis
    by (cases "freelance_render card_markup details st")
       (simp_all add: freelance_after_def same)
qed

lemma appointments_after_error:
  "appointments_after lower card_markup details st SubscriptionError
     = (case appointments_render lower card_markup details st of
          Crashed x \<Rightarrow> Crashed x
        | shown \<Rightarrow> ErrorPanel ''Failed to connect to database'')"
proof (cases "filteredAppointments lower (appointments st) (ap_searchTerm st) (statusFilter st)")
  case (Inl e)
  then show ?thesis
    by (simp add: appointments_after_def appointments_render_def)
next
  case (Inr shown)
  then have "appointments_render lower card_markup details (appointments_step st SubscriptionError)
               = ErrorPanel ''Failed to connect to database''"
    by (simp add: appointments_render_def appointments_onError_def)
  then show ?thesis
    by (cases "appointments_render lower card_markup details st")
       (simp_all add: appointments_after_def)
qed

lemma freelance_run_snoc:
  "freelance_run lower (evs @ [e]) = freelance_step lower (freelance_run lower evs) e"
  by (simp add: freelance_run_def)

lemma repairs_run_loading:
  "\<not> showModal (repairs_run evs)
   \<and> (rp_loading (repairs_run evs) \<longrightarrow> repairs (repairs_run evs) = [])"
proof (induction evs rule: rev_induct)
  case Nil
  then show ?case by (simp add: repairs_run_def repairs_initial_def)
next
  case (snoc e evs)
  then show ?case
    by (cases e)
       (auto simp: repairs_run_snoc repairs_onSnapshot_def repairs_onResolved_def
          repairs_onError_def Let_def split: option.splits)
qed

lemma freelance_run_loading:
  "fl_loading (freelance_run lower evs) \<longrightarrow> freelancers (freelance_run lower evs) = []"
proof (induction evs rule: rev_induct)
  case Nil
  then show ?case by (simp add: freelance_run_def freelance_initial_def)
next
  case (snoc e evs)
  then show ?case
    by (cases e)
       (auto simp: freelance_run_snoc freelance_onSnapshot_def freelance_onError_def)
qed

text \<open>
  C8, as the code has it. When the subscription delivers an error, every page stops
  loading and keeps the records it has stored. The appointments page, unless its render
  had already thrown, shows the error state "Failed to connect to database" with its
  Retry button in place of the list. The repairs and the freelance page have no error
  state and show none. In every state in which a page that is loading has stored no
  record and has no repair details open (every state the subscription's events lead to
  is one), they show what they showed before, cards included, but for the spinner, which
  gives way to the empty state; so no page that rendered before the error throws after
  it. This holds whatever a card and the details show or throw.
\<close>

theorem subscription_error_outcome:
  "\<not> rp_loading (repairs_step rp SubscriptionError)
   \<and> \<not> ap_loading (appointments_step ap SubscriptionError)
   \<and> \<not> fl_loading (freelance_step lower fl SubscriptionError)
   \<and> repairs (repairs_step rp SubscriptionError) = repairs rp
   \<and> appointments (appointments_step ap SubscriptionError) = appointments ap
   \<and> freelancers (freelance_step lower fl SubscriptionError) = freelancers fl
   \<and> appointments_after lower appointment_markup diagnosis_markup ap SubscriptionError
       = (case appointments_render lower appointment_markup diagnosis_markup ap of
            Crashed x \<Rightarrow> Crashed x
          | shown \<Rightarrow> ErrorPanel ''Failed to connect to database'')
   \<and> repairs_after lower repair_markup repair_details rp SubscriptionError \<noteq> ErrorPanel msg
   \<and> freelance_after lower freelancer_markup freelancer_details fl SubscriptionError
       \<noteq> ErrorPanel msg
   \<and> ((rp_loading rp \<longrightarrow> repairs rp = [] \<and> \<not> showModal rp) \<longrightarrow>
         repairs_after lower repair_markup repair_details rp SubscriptionError
           = (case repairs_render lower repair_markup repair_details rp of
                Spinner \<Rightarrow> EmptyPanel
              | shown \<Rightarrow> shown))
   \<and> ((fl_loading fl \<longrightarrow> freelancers fl = []) \<longrightarrow>
         freelance_after lower freelancer_markup freelancer_details fl SubscriptionError
           = (case freelance_render freelancer_markup freelancer_details fl of
                Spinner \<Rightarrow> EmptyPanel
              | shown \<Rightarrow> shown))
   \<and> (rp_loading (repairs_run evs)
        \<longrightarrow> repairs (repairs_run evs) = [] \<and> \<not> showModal (repairs_run evs))
   \<and> (fl_loading (freelance_run lower evs) \<longrightarrow> freelancers (freelance_run lower evs) = [])"
proof -
  have state: "\<not> rp_loading (repairs_step rp SubscriptionError)
      \<and> \<not> ap_loading (appointments_step ap SubscriptionError)
      \<and> \<not> fl_loading (freelance_step lower fl SubscriptionError)
      \<and> repairs (repairs_step rp SubscriptionError) = repairs rp
      \<and> appointments (appointments_step ap SubscriptionError) = appointments ap
      \<and> freelancers (freelance_step lower fl SubscriptionError) = freelancers fl"
    by (simp add: repairs_onError_def appointments_onError_def freelance_onError_def)
  have silent_rp:
    "repairs_after lower repair_markup repair_details rp SubscriptionError \<noteq> ErrorPanel msg"
    by (cases "repairs_render lower repair_markup repair_details rp")
       (simp_all add: repairs_after_def repairs_render_no_error_state)
  have silent_fl:
    "freelance_after lower freelancer_markup freelancer_details fl SubscriptionError
       \<noteq> ErrorPanel msg"
    by (cases "freelance_render freelancer_markup freelancer_details fl")
       (simp_all add: freelance_after_def freelance_render_no_error_state)
  from state silent_rp silent_fl
    appointments_after_error [of lower appointment_markup diagnosis_markup ap]
    repairs_after_error [of rp lower repair_markup repair_details]
    freelance_after_error [of fl lower freelancer_markup freelancer_details]
    repairs_run_loading [of evs] freelance_run_loading [of lower evs]
  show ?thesis
    by blast
qed

text \<open>
  The error arrives while the first snapshot of the repairs page is being resolved, after
  the appointments page has shown that snapshot's card, and before the freelance page has
  received anything: the repairs page shows its empty state, the appointments page the
  error state, the freelance page its empty state.
\<close>

theorem subscription_error_outcome_witness:
  "rp_loading (repairs_run [Deliver one_repair])
   \<and> repairs (repairs_run [Deliver one_repair]) = []
   \<and> \<not> showModal (repairs_run [Deliver one_repair])
   \<and> (\<forall>details :: jsobj \<Rightarrow> js_error + jsval list.
        repairs_after ascii_lower repair_card details (repairs_run [Deliver one_repair])
          SubscriptionError = EmptyPanel)
   \<and> (\<forall>details :: bool \<times> string option \<times> jsobj option \<Rightarrow> js_error + jsval list.
        appointments_render ascii_lower appointment_card details
          (appointments_run [Deliver one_repair, Resolved 0 empty_store])
        = CardGrid [[JStr ''r1'', JStr ''Unknown'', JStr ''Completed'', JStr ''Unknown'',
                     JStr ''Laptop'', JStr ''Broken hinge'']]
        \<and> appointments_after ascii_lower appointment_card details
            (appointments_run [Deliver one_repair, Resolved 0 empty_store]) SubscriptionError
          = ErrorPanel ''Failed to connect to database'')
   \<and> fl_loading (freelance_run ascii_lower [])
   \<and> freelancers (freelance_run ascii_lower []) = []
   \<and> (\<forall>details :: jsobj \<Rightarrow> js_error + jsval list.
        freelance_after ascii_lower freelance_card details (freelance_run ascii_lower [])
          SubscriptionError = EmptyPanel)"
proof -
  have rp: "repairs_run [Deliver one_repair]
      = \<lparr>repairs = [], rp_loading = True, rp_searchTerm = [], typeFilter = ''all'',
         selectedRepair = None, showModal = False,
         rp_in_flight =
           [(0, [[(''id'', JStr ''r1''), (''status'', JObj [(''global'', JStr ''Completed'')]),
                  (''deviceType'', JStr ''Laptop''), (''issue'', JStr ''Broken hinge'')]])],
         rp_deliveries = 1\<rparr>"
    by (simp add: repairs_run_def repairs_initial_def repairs_onSnapshot_def one_repair_def
        appointment_docs_def spread_def set_field_def)
  have ap: "appointments_run [Deliver one_repair, Resolved 0 empty_store]
      = \<lparr>appointments =
           [[(''id'', JStr ''r1''), (''status'', JObj [(''global'', JStr ''Completed'')]),
             (''deviceType'', JStr ''Laptop''), (''issue'', JStr ''Broken hinge''),
             (''userInfo'', JUndefined), (''technicianInfo'', JUndefined)]],
         ap_loading = False, ap_error = None, ap_searchTerm = [], statusFilter = ''all'',
         showDiagnosisModal = False, diagnosisLoading = False, diagnosisError = None,
         diagnosisData = None, ap_in_flight = [], ap_deliveries = 1\<rparr>"
    by (simp add: appointments_run_def appointments_initial_def appointments_onSnapshot_def
        appointments_onResolved_def one_repair_def resolver_eval_defs)
  have fl: "freelance_run ascii_lower []
      = \<lparr>freelancers = [], fl_loading = True, selected = None\<rparr>"
    by (simp add: freelance_run_def freelance_initial_def)
  have shown: "appointments_render ascii_lower appointment_card details
          (appointments_run [Deliver one_repair, Resolved 0 empty_store])
        = CardGrid [[JStr ''r1'', JStr ''Unknown'', JStr ''Completed'', JStr ''Unknown'',
                     JStr ''Laptop'', JStr ''Broken hinge'']]"
    for details :: "bool \<times> string option \<times> jsobj option \<Rightarrow> js_error + jsval list"
    unfolding ap
    by (simp add: appointments_render_def appointments_grid_def overlay_error_def
        appointment_card_def calls_non_function_def as_children_def filter_eval_defs)
  have loading: "repairs_render ascii_lower repair_card details (repairs_run [Deliver one_repair])
                   = Spinner"
    for details :: "jsobj \<Rightarrow> js_error + jsval list"
    unfolding rp by (simp add: repairs_render_def filteredRepairs_def)
  have waiting: "freelance_render freelance_card details (freelance_run ascii_lower []) = Spinner"
    for details :: "jsobj \<Rightarrow> js_error + jsval list"
    unfolding fl by (simp add: freelance_render_def overlay_error_def)
  have start: "rp_loading (repairs_run [Deliver one_repair])
      \<and> repairs (repairs_run [Deliver one_repair]) = []
      \<and> \<not> showModal (repairs_run [Deliver one_repair])
      \<and> fl_loading (freelance_run ascii_lower [])
      \<and> freelancers (freelance_run ascii_lower []) = []"
    by (simp add: rp fl)
  have outcome: "repairs_after ascii_lower repair_card rdetails (repairs_run [Deliver one_repair])
          SubscriptionError = EmptyPanel
      \<and> appointments_after ascii_lower appointment_card adetails
            (appointments_run [Deliver one_repair, Resolved 0 empty_store]) SubscriptionError
          = ErrorPanel ''Failed to connect to database''
      \<and> freelance_after ascii_lower freelance_card fdetails (freelance_run ascii_lower [])
          SubscriptionError = EmptyPanel"
    for rdetails :: "jsobj \<Rightarrow> js_error + jsval list"
    and adetails :: "bool \<times> string option \<times> jsobj option \<Rightarrow> js_error + jsval list"
    and fdetails :: "jsobj \<Rightarrow> js_error + jsval list"
    using subscription_error_outcome
      [where rp = "repairs_run [Deliver one_repair]"
         and ap = "appointments_run [Deliver one_repair, Resolved 0 empty_store]"
         and fl = "freelance_run ascii_lower []"
         and lower = ascii_lower
         and repair_markup = repair_card and repair_details = rdetails
         and appointment_markup = appointment_card and diagnosis_markup = adetails
         and freelancer_markup = freelance_card and freelancer_details = fdetails]
      start
    by (simp add: loading waiting shown)
  from start shown outcome show ?thesis
    by simp
qed

text \<open>
  The claim fails in the repairs and the freelance page: after a snapshot has been
  stored, an error leaves its cards on the screen and shows no error.
\<close>

theorem error_keeps_stale_cards:
  "(\<forall>details :: jsobj \<Rightarrow> js_error + jsval list.
      repairs_after ascii_lower repair_card details
        (repairs_run [Deliver one_repair, Resolved 0 empty_store]) SubscriptionError
      = CardGrid [[JStr ''r1'', JStr ''Completed'', JStr ''Unknown'', JStr ''Unknown'',
                   JStr ''Completed'', JStr ''Laptop'', JStr ''Broken hinge'',
                   JStr ''freelance'']])
   \<and> (\<forall>details :: jsobj \<Rightarrow> js_error + jsval list.
      freelance_after ascii_lower freelance_card details
        (freelance_run ascii_lower [Deliver three_technicians]) SubscriptionError
      = CardGrid [[JStr ''ana'']])"
proof -
  have rp: "repairs_run [Deliver one_repair, Resolved 0 empty_store]
      = \<lparr>repairs =
           [[(''id'', JStr ''r1''), (''status'', JObj [(''global'', JStr ''Completed'')]),
             (''deviceType'', JStr ''Laptop''), (''issue'', JStr ''Broken hinge''),
             (''userInfo'', JUndefined), (''technicianInfo'', JUndefined),
             (''userDetails'', JUndefined), (''technicianDetails'', JUndefined)]],
         rp_loading = False, rp_searchTerm = [], typeFilter = ''all'',
         selectedRepair = None, showModal = False, rp_in_flight = [], rp_deliveries = 1\<rparr>"
    by (simp add: repairs_run_def repairs_initial_def repairs_onSnapshot_def
        repairs_onResolved_def one_repair_def resolver_eval_defs)
  have fl: "freelance_run ascii_lower [Deliver three_technicians]
      = \<lparr>freelancers = [ana], fl_loading = False, selected = None\<rparr>"
    by (simp add: freelance_run_def freelance_initial_def freelance_onSnapshot_def
        freelanceTechs_def freelance_docs_def is_freelance_def freelance_status_def
        three_technicians_def ana_def spread_def set_field_def field_def ascii_lower_def
        lower_char_def)
  have cards: "repairs_render ascii_lower repair_card details
        (repairs_run [Deliver one_repair, Resolved 0 empty_store])
      = CardGrid [[JStr ''r1'', JStr ''Completed'', JStr ''Unknown'', JStr ''Unknown'',
                   JStr ''Completed'', JStr ''Laptop'', JStr ''Broken hinge'',
                   JStr ''freelance'']]"
    for details :: "jsobj \<Rightarrow> js_error + jsval list"
    unfolding rp
    by (simp add: repairs_render_def overlay_error_def repair_card_def repair_user_name_def
        repair_technician_name_def as_children_def filter_eval_defs)
  have titles: "freelance_render freelance_card details
        (freelance_run ascii_lower [Deliver three_technicians]) = CardGrid [[JStr ''ana'']]"
    for details :: "jsobj \<Rightarrow> js_error + jsval list"
    unfolding fl
    by (simp add: freelance_render_def overlay_error_def freelance_card_def as_children_def
        ana_def js_or_def field_def)
  have same_rp: "repairs_onError (repairs_run [Deliver one_repair, Resolved 0 empty_store])
                   = repairs_run [Deliver one_repair, Resolved 0 empty_store]"
    by (rule repairs_onError_idle) (simp add: rp)
  have same_fl: "freelance_onError (freelance_run ascii_lower [Deliver three_technicians])
                   = freelance_run ascii_lower [Deliver three_technicians]"
    by (rule freelance_onError_idle) (simp add: fl)
  show ?thesis
    by (simp add: repairs_after_def freelance_after_def same_rp same_fl cards titles)
qed

section \<open>The resolvers\<close>

lemma try_fetch_nothing:
  "\<forall>d. getDoc rd coll ident \<noteq> Inr (Existing d) \<Longrightarrow> try_fetch rd coll ident = JNull"
  by (auto simp: try_fetch_def split: sum.splits doc_snapshot.splits)

lemma appointments_lookup_nothing:
  "\<forall>d. getDoc rd coll ident \<noteq> Inr (Existing d) \<Longrightarrow>
     appointments_lookup rd coll info ident = info"
  by (auto simp: appointments_lookup_def split: sum.splits doc_snapshot.splits)

lemma getDoc_same_collection:
  "rd' coll = rd coll \<Longrightarrow> getDoc rd' coll ident = getDoc rd coll ident"
  by (simp add: getDoc_def split: jsval.splits)

lemma try_fetch_same_collection:
  "rd' coll = rd coll \<Longrightarrow> try_fetch rd' coll ident = try_fetch rd coll ident"
  using getDoc_same_collection [of rd' coll rd ident]
  by (simp add: try_fetch_def)

lemma appointments_lookup_same_collection:
  "rd' coll = rd coll \<Longrightarrow>
     appointments_lookup rd' coll info ident = appointments_lookup rd coll info ident"
  using getDoc_same_collection [of rd' coll rd ident]
  by (simp add: appointments_lookup_def)

lemma repairs_resolved_fields:
  "field (fst (repairs_fetchUserAndTechnicianDetails rd a)) ''userInfo''
     = repairs_userInfo a (if repairs_fetches_user a
                           then try_fetch rd ''users'' (field a ''userId'') else JNull)"
  "field (fst (repairs_fetchUserAndTechnicianDetails rd a)) ''userDetails''
     = repairs_userDetails a (if repairs_fetches_user a
                              then try_fetch rd ''users'' (field a ''userId'') else JNull)"
  "field (fst (repairs_fetchUserAndTechnicianDetails rd a)) ''technicianInfo''
     = repairs_technicianInfo a
         (if repairs_fetches_technician a
          then try_fetch rd ''technicians'' (field a ''technicianId'') else JNull)"
  "field (fst (repairs_fetchUserAndTechnicianDetails rd a)) ''technicianDetails''
     = repairs_technicianDetails a
         (if repairs_fetches_technician a
          then try_fetch rd ''technicians'' (field a ''technicianId'') else JNull)"
  by (simp_all add: repairs_fetchUserAndTechnicianDetails_def Let_def field_set_field)

lemma appointments_resolved_fields:
  "field (fst (appointments_fetchUserAndTechnicianDetails rd a)) ''userInfo''
     = (let u = appointments_lookup rd ''users''
                  (js_or (field a ''userInfo'') (field a ''userDetails'')) (field a ''userId'')
        in if truthy u then contact_snapshot u else JUndefined)"
  "field (fst (appointments_fetchUserAndTechnicianDetails rd a)) ''technicianInfo''
     = (let t = appointments_lookup rd ''technicians''
                  (js_or (field a ''technicianInfo'') (field a ''technicianDetails''))
                  (field a ''technicianId'')
        in if truthy t then contact_snapshot t else JUndefined)"
  "k \<noteq> ''userInfo'' \<Longrightarrow> k \<noteq> ''technicianInfo'' \<Longrightarrow>
     field (fst (appointments_fetchUserAndTechnicianDetails rd a)) k = field a k"
  by (simp_all add: appointments_fetchUserAndTechnicianDetails_def Let_def field_set_field)

lemma repairs_user_missing:
  assumes "\<not> truthy (field a ''userInfo'')" and "\<not> truthy (field a ''userDetails'')"
      and "\<forall>d. getDoc rd ''users'' (field a ''userId'') \<noteq> Inr (Existing d)"
  shows "field (fst (repairs_fetchUserAndTechnicianDetails rd a)) ''userInfo'' = JUndefined"
    and "field (fst (repairs_fetchUserAndTechnicianDetails rd a)) ''userDetails'' = JUndefined"
  using assms
  by (simp_all add: repairs_resolved_fields try_fetch_nothing repairs_userInfo_def
      repairs_userDetails_def js_or_def)

lemma repairs_technician_missing:
  assumes "\<not> truthy (field a ''technicianInfo'')"
      and "\<not> truthy (field a ''technicianDetails'')"
      and "\<forall>d. getDoc rd ''technicians'' (field a ''technicianId'') \<noteq> Inr (Existing d)"
  shows "field (fst (repairs_fetchUserAndTechnicianDetails rd a)) ''technicianInfo''
           = JUndefined"
    and "field (fst (repairs_fetchUserAndTechnicianDetails rd a)) ''technicianDetails''
           = JUndefined"
  using assms
  by (simp_all add: repairs_resolved_fields try_fetch_nothing repairs_technicianInfo_def
      repairs_technicianDetails_def js_or_def)

lemma appointments_user_missing:
  assumes "\<not> truthy (field a ''userInfo'')" and "\<not> truthy (field a ''userDetails'')"
      and "\<forall>d. getDoc rd ''users'' (field a ''userId'') \<noteq> Inr (Existing d)"
  shows "field (fst (appointments_fetchUserAndTechnicianDetails rd a)) ''userInfo''
           = JUndefined"
    and "field (fst (appointments_fetchUserAndTechnicianDetails rd a)) ''userDetails''
           = field a ''userDetails''"
  using assms
  by (simp_all add: appointments_resolved_fields appointments_lookup_nothing js_or_def)

lemma appointments_technician_missing:
  assumes "\<not> truthy (field a ''technicianInfo'')"
      and "\<not> truthy (field a ''technicianDetails'')"
      and "\<forall>d. getDoc rd ''technicians'' (field a ''technicianId'') \<noteq> Inr (Existing d)"
  shows "field (fst (appointments_fetchUserAndTechnicianDetails rd a)) ''technicianInfo''
           = JUndefined"
    and "field (fst (appointments_fetchUserAndTechnicianDetails rd a)) ''technicianDetails''
           = field a ''technicianDetails''"
  using assms
  by (simp_all add: appointments_resolved_fields appointments_lookup_nothing js_or_def)

lemma repairs_technician_independent:
  assumes "rd' ''technicians'' = rd ''technicians''"
  shows "field (fst (repairs_fetchUserAndTechnicianDetails rd' a)) ''technicianInfo''
           = field (fst (repairs_fetchUserAndTechnicianDetails rd a)) ''technicianInfo''"
    and "field (fst (repairs_fetchUserAndTechnicianDetails rd' a)) ''technicianDetails''
           = field (fst (repairs_fetchUserAndTechnicianDetails rd a)) ''technicianDetails''"
  using try_fetch_same_collection [of rd' "''technicians''" rd, OF assms]
  by (simp_all add: repairs_resolved_fields)

lemma repairs_user_independent:
  assumes "rd' ''users'' = rd ''users''"
  shows "field (fst (repairs_fetchUserAndTechnicianDetails rd' a)) ''userInfo''
           = field (fst (repairs_fetchUserAndTechnicianDetails rd a)) ''userInfo''"
    and "field (fst (repairs_fetchUserAndTechnicianDetails rd' a)) ''userDetails''
           = field (fst (repairs_fetchUserAndTechnicianDetails rd a)) ''userDetails''"
  using try_fetch_same_collection [of rd' "''users''" rd, OF assms]
  by (simp_all add: repairs_resolved_fields)

lemma appointments_technician_independent:
  assumes "rd' ''technicians'' = rd ''technicians''"
  shows "field (fst (appointments_fetchUserAndTechnicianDetails rd' a)) ''technicianInfo''
           = field (fst (appointments_fetchUserAndTechnicianDetails rd a)) ''technicianInfo''"
  using appointments_lookup_same_collection [of rd' "''technicians''" rd, OF assms]
  by (simp add: appointments_resolved_fields)

lemma appointments_user_independent:
  assumes "rd' ''users'' = rd ''users''"
  shows "field (fst (appointments_fetchUserAndTechnicianDetails rd' a)) ''userInfo''
           = field (fst (appointments_fetchUserAndTechnicianDetails rd a)) ''userInfo''"
  using appointments_lookup_same_collection [of rd' "''users''" rd, OF assms]
  by (simp add: appointments_resolved_fields)

text \<open>
  C3, as the code has it. When a record embeds no snapshot of its user and the read of
  the user fails or finds no document, both resolvers return the record with
  \<^verbatim>\<open>userInfo\<close> undefined (the repairs resolver with \<^verbatim>\<open>userDetails\<close> undefined as well),
  not with sentinel fields; the sentinels appear where the record is shown: the repair
  details show "Unknown", "N/A" and "N/A" for the user's name, email and phone, and the
  appointment's card and search use "Unknown" as the user's name. The same holds for the
  technician. What the resolvers return for the technician does not depend on the
  \<^verbatim>\<open>users\<close> collection, nor what they return for the user on the \<^verbatim>\<open>technicians\<close>
  collection. Both resolvers return a record for every record and every store answer.
\<close>

theorem missing_entity_is_left_undefined:
  "(\<not> truthy (field a ''userInfo'') \<and> \<not> truthy (field a ''userDetails'')
    \<and> (\<forall>d. getDoc rd ''users'' (field a ''userId'') \<noteq> Inr (Existing d)) \<longrightarrow>
      field (fst (repairs_fetchUserAndTechnicianDetails rd a)) ''userInfo'' = JUndefined
      \<and> field (fst (repairs_fetchUserAndTechnicianDetails rd a)) ''userDetails'' = JUndefined
      \<and> repair_user_name (fst (repairs_fetchUserAndTechnicianDetails rd a)) = JStr ''Unknown''
      \<and> repair_user_email (fst (repairs_fetchUserAndTechnicianDetails rd a)) = JStr ''N/A''
      \<and> repair_user_phone (fst (repairs_fetchUserAndTechnicianDetails rd a)) = JStr ''N/A''
      \<and> field (fst (appointments_fetchUserAndTechnicianDetails rd a)) ''userInfo'' = JUndefined
      \<and> appointment_userName (fst (appointments_fetchUserAndTechnicianDetails rd a))
          = JStr ''Unknown'')
   \<and> (\<not> truthy (field a ''technicianInfo'') \<and> \<not> truthy (field a ''technicianDetails'')
      \<and> (\<forall>d. getDoc rd ''technicians'' (field a ''technicianId'') \<noteq> Inr (Existing d)) \<longrightarrow>
      field (fst (repairs_fetchUserAndTechnicianDetails rd a)) ''technicianInfo'' = JUndefined
      \<and> field (fst (repairs_fetchUserAndTechnicianDetails rd a)) ''technicianDetails''
          = JUndefined
      \<and> repair_technician_name (fst (repairs_fetchUserAndTechnicianDetails rd a))
          = JStr ''Unknown''
      \<and> repair_technician_email (fst (repairs_fetchUserAndTechnicianDetails rd a))
          = JStr ''N/A''
      \<and> repair_technician_phone (fst (repairs_fetchUserAndTechnicianDetails rd a))
          = JStr ''N/A''
      \<and> field (fst (appointments_fetchUserAndTechnicianDetails rd a)) ''technicianInfo''
          = JUndefined
      \<and> appointment_techName (fst (appointments_fetchUserAndTechnicianDetails rd a))
          = JStr ''Unknown'')
   \<and> (rd' ''technicians'' = rd ''technicians'' \<longrightarrow>
      field (fst (repairs_fetchUserAndTechnicianDetails rd' a)) ''technicianInfo''
        = field (fst (repairs_fetchUserAndTechnicianDetails rd a)) ''technicianInfo''
      \<and> field (fst (repairs_fetchUserAndTechnicianDetails rd' a)) ''technicianDetails''
        = field (fst (repairs_fetchUserAndTechnicianDetails rd a)) ''technicianDetails''
      \<and> field (fst (appointments_fetchUserAndTechnicianDetails rd' a)) ''technicianInfo''
        = field (fst (appointments_fetchUserAndTechnicianDetails rd a)) ''technicianInfo'')
   \<and> (rd' ''users'' = rd ''users'' \<longrightarrow>
      field (fst (repairs_fetchUserAndTechnicianDetails rd' a)) ''userInfo''
        = field (fst (repairs_fetchUserAndTechnicianDetails rd a)) ''userInfo''
      \<and> field (fst (repairs_fetchUserAndTechnicianDetails rd' a)) ''userDetails''
        = field (fst (repairs_fetchUserAndTechnicianDetails rd a)) ''userDetails''
      \<and> field (fst (appointments_fetchUserAndTechnicianDetails rd' a)) ''userInfo''
        = field (fst (appointments_fetchUserAndTechnicianDetails rd a)) ''userInfo'')"
proof -
  have user: "field (fst (repairs_fetchUserAndTechnicianDetails rd a)) ''userInfo'' = JUndefined
      \<and> field (fst (repairs_fetchUserAndTechnicianDetails rd a)) ''userDetails'' = JUndefined
      \<and> repair_user_name (fst (repairs_fetchUserAndTechnicianDetails rd a)) = JStr ''Unknown''
      \<and> repair_user_email (fst (repairs_fetchUserAndTechnicianDetails rd a)) = JStr ''N/A''
      \<and> repair_user_phone (fst (repairs_fetchUserAndTechnicianDetails rd a)) = JStr ''N/A''
      \<and> field (fst (appointments_fetchUserAndTechnicianDetails rd a)) ''userInfo'' = JUndefined
      \<and> appointment_userName (fst (appointments_fetchUserAndTechnicianDetails rd a))
          = JStr ''Unknown''"
    if h: "\<not> truthy (field a ''userInfo'')" "\<not> truthy (field a ''userDetails'')"
          "\<forall>d. getDoc rd ''users'' (field a ''userId'') \<noteq> Inr (Existing d)"
  proof -
    have "opt_field (field a ''userDetails'') k = JUndefined" for k
      using h(2) by (cases "field a ''userDetails''") simp_all
    with repairs_user_missing [OF h] appointments_user_missing [OF h] show ?thesis
      by (simp add: repair_user_name_def repair_user_email_def repair_user_phone_def
          appointment_userName_def js_or_def)
  qed
  have technician:
     "field (fst (repairs_fetchUserAndTechnicianDetails rd a)) ''technicianInfo'' = JUndefined
      \<and> field (fst (repairs_fetchUserAndTechnicianDetails rd a)) ''technicianDetails''
          = JUndefined
      \<and> repair_technician_name (fst (repairs_fetchUserAndTechnicianDetails rd a))
          = JStr ''Unknown''
      \<and> repair_technician_email (fst (repairs_fetchUserAndTechnicianDetails rd a))
          = JStr ''N/A''
      \<and> repair_technician_phone (fst (repairs_fetchUserAndTechnicianDetails rd a))
          = JStr ''N/A''
      \<and> field (fst (appointments_fetchUserAndTechnicianDetails rd a)) ''technicianInfo''
          = JUndefined
      \<and> appointment_techName (fst (appointments_fetchUserAndTechnicianDetails rd a))
          = JStr ''Unknown''"
    if h: "\<not> truthy (field a ''technicianInfo'')" "\<not> truthy (field a ''technicianDetails'')"
          "\<forall>d. getDoc rd ''technicians'' (field a ''technicianId'') \<noteq> Inr (Existing d)"
  proof -
    have "opt_field (field a ''technicianDetails'') k = JUndefined" for k
      using h(2) by (cases "field a ''technicianDetails''") simp_all
    with repairs_technician_missing [OF h] appointments_technician_missing [OF h]
    show ?thesis
      by (simp add: repair_technician_name_def repair_technician_email_def
          repair_technician_phone_def appointment_techName_def js_or_def)
  qed
  from user technician repairs_technician_independent [of rd' rd a]
    repairs_user_independent [of rd' rd a] appointments_technician_independent [of rd' rd a]
    appointments_user_independent [of rd' rd a]
  show ?thesis by blast
qed

theorem missing_entity_is_left_undefined_witness:
  "\<not> truthy (field by_id_only ''userInfo'') \<and> \<not> truthy (field by_id_only ''userDetails'')
   \<and> getDoc users_unreadable ''users'' (field by_id_only ''userId'') = Inl FirestoreError
   \<and> field (fst (repairs_fetchUserAndTechnicianDetails users_unreadable by_id_only)) ''userInfo''
       = JUndefined
   \<and> repair_user_name (fst (repairs_fetchUserAndTechnicianDetails users_unreadable by_id_only))
       = JStr ''Unknown''
   \<and> field (fst (appointments_fetchUserAndTechnicianDetails users_unreadable by_id_only))
        ''userInfo'' = JUndefined
   \<and> users_readable ''technicians'' = users_unreadable ''technicians''
   \<and> field (fst (repairs_fetchUserAndTechnicianDetails users_unreadable by_id_only))
        ''technicianInfo''
       = JObj [(''username'', JStr ''Tom Cruz''), (''email'', JStr ''N/A''),
               (''phone'', JStr ''0917'')]
   \<and> field (fst (repairs_fetchUserAndTechnicianDetails users_readable by_id_only))
        ''technicianInfo''
       = JObj [(''username'', JStr ''Tom Cruz''), (''email'', JStr ''N/A''),
               (''phone'', JStr ''0917'')]
   \<and> field (fst (repairs_fetchUserAndTechnicianDetails users_readable by_id_only)) ''userInfo''
       = JObj [(''username'', JStr ''Maria''), (''email'', JStr ''maria@mail.test''),
               (''phone'', JStr ''N/A'')]"
proof -
  have embedded: "\<not> truthy (field by_id_only ''userInfo'')
      \<and> \<not> truthy (field by_id_only ''userDetails'')"
    by (simp add: by_id_only_def field_def)
  have failed: "getDoc users_unreadable ''users'' (field by_id_only ''userId'')
                  = Inl FirestoreError"
    by (simp add: getDoc_def users_unreadable_def by_id_only_def field_def)
  then have nothing:
    "\<forall>d. getDoc users_unreadable ''users'' (field by_id_only ''userId'') \<noteq> Inr (Existing d)"
    by simp
  have same: "users_readable ''technicians'' = users_unreadable ''technicians''"
    by (simp add: fun_eq_iff users_readable_def users_unreadable_def)
  have tech: "field (fst (repairs_fetchUserAndTechnicianDetails users_unreadable by_id_only))
        ''technicianInfo''
       = JObj [(''username'', JStr ''Tom Cruz''), (''email'', JStr ''N/A''),
               (''phone'', JStr ''0917'')]"
    unfolding repairs_resolved_fields
    by (simp add: repairs_fetches_technician_def repairs_technicianInfo_def try_fetch_def
        getDoc_def users_unreadable_def document_path_def js_or_def by_id_only_def field_def)
  have found: "field (fst (repairs_fetchUserAndTechnicianDetails users_readable by_id_only))
        ''userInfo''
       = JObj [(''username'', JStr ''Maria''), (''email'', JStr ''maria@mail.test''),
               (''phone'', JStr ''N/A'')]"
    unfolding repairs_resolved_fields
    by (simp add: repairs_fetches_user_def repairs_userInfo_def try_fetch_def getDoc_def
        users_readable_def document_path_def js_or_def by_id_only_def field_def)
  from missing_entity_is_left_undefined
         [of by_id_only users_unreadable users_readable] embedded failed nothing same tech found
  show ?thesis by simp
qed

text \<open>
  The claim fails in both resolvers: for a user that is not in the store, and for one
  whose read fails, the record comes back without \<^verbatim>\<open>userInfo\<close>, not with the sentinels in
  it.
\<close>

theorem missing_user_gets_no_sentinel_fields:
  "fst (repairs_fetchUserAndTechnicianDetails empty_store
          [(''id'', JStr ''a1''), (''userId'', JStr ''u1'')])
     = [(''id'', JStr ''a1''), (''userId'', JStr ''u1''), (''userInfo'', JUndefined),
        (''technicianInfo'', JUndefined), (''userDetails'', JUndefined),
        (''technicianDetails'', JUndefined)]
   \<and> fst (appointments_fetchUserAndTechnicianDetails empty_store
          [(''id'', JStr ''a1''), (''userId'', JStr ''u1'')])
     = [(''id'', JStr ''a1''), (''userId'', JStr ''u1''), (''userInfo'', JUndefined),
        (''technicianInfo'', JUndefined)]
   \<and> fst (repairs_fetchUserAndTechnicianDetails (\<lambda>coll ident. Inl FirestoreError)
          [(''id'', JStr ''a1''), (''userId'', JStr ''u1'')])
     = [(''id'', JStr ''a1''), (''userId'', JStr ''u1''), (''userInfo'', JUndefined),
        (''technicianInfo'', JUndefined), (''userDetails'', JUndefined),
        (''technicianDetails'', JUndefined)]
   \<and> fst (appointments_fetchUserAndTechnicianDetails (\<lambda>coll ident. Inl FirestoreError)
          [(''id'', JStr ''a1''), (''userId'', JStr ''u1'')])
     = [(''id'', JStr ''a1''), (''userId'', JStr ''u1''), (''userInfo'', JUndefined),
        (''technicianInfo'', JUndefined)]
   \<and> opt_field JUndefined ''username'' \<noteq> JStr ''Unknown''"
  by (simp add: resolver_eval_defs)

subsection \<open>Embedded snapshots\<close>

text \<open>
  Neither resolver reads an entity whose snapshot the record embeds.
\<close>

lemma repairs_embedded_user_not_read:
  assumes "truthy (field a ''userInfo'') \<or> truthy (field a ''userDetails'')"
  shows "(''users'', ident) \<notin> set (snd (repairs_fetchUserAndTechnicianDetails rd a))"
  using assms
  by (auto simp: repairs_fetchUserAndTechnicianDetails_def repairs_fetches_user_def Let_def)

lemma repairs_embedded_technician_not_read:
  assumes "truthy (field a ''technicianInfo'') \<or> truthy (field a ''technicianDetails'')"
  shows "(''technicians'', ident) \<notin> set (snd (repairs_fetchUserAndTechnicianDetails rd a))"
  using assms
  by (auto simp: repairs_fetchUserAndTechnicianDetails_def repairs_fetches_technician_def
      Let_def)

lemma appointments_embedded_user_not_read:
  assumes "truthy (field a ''userInfo'') \<or> truthy (field a ''userDetails'')"
  shows "(''users'', ident) \<notin> set (snd (appointments_fetchUserAndTechnicianDetails rd a))"
  using assms
  by (auto simp: appointments_fetchUserAndTechnicianDetails_def appointments_fetches_def
      js_or_def Let_def)

lemma appointments_embedded_technician_not_read:
  assumes "truthy (field a ''technicianInfo'') \<or> truthy (field a ''technicianDetails'')"
  shows "(''technicians'', ident)
           \<notin> set (snd (appointments_fetchUserAndTechnicianDetails rd a))"
  using assms
  by (auto simp: appointments_fetchUserAndTechnicianDetails_def appointments_fetches_def
      js_or_def Let_def)

text \<open>
  The repairs resolver replaces every embedded \<^verbatim>\<open>userInfo\<close> by the sentinels, whatever it
  held.
\<close>

lemma repairs_embedded_userInfo_replaced:
  assumes "truthy (field a ''userInfo'')"
  shows "field (fst (repairs_fetchUserAndTechnicianDetails rd a)) ''userInfo''
           = JObj [(''username'', JStr ''Unknown''), (''email'', JStr ''N/A''),
                   (''phone'', JStr ''N/A'')]"
  using assms
  by (simp add: repairs_resolved_fields repairs_fetches_user_def repairs_userInfo_def js_or_def)

text \<open>
  The appointments resolver keeps an embedded \<^verbatim>\<open>userInfo\<close>: its name, email and phone
  are those of the snapshot wherever the snapshot has them.
\<close>

lemma contact_snapshot_keeps:
  "truthy (opt_field x ''username'') \<Longrightarrow>
     opt_field (contact_snapshot x) ''username'' = opt_field x ''username''"
  "truthy (opt_field x ''email'') \<Longrightarrow>
     opt_field (contact_snapshot x) ''email'' = opt_field x ''email''"
  "truthy (opt_field x ''phone'') \<Longrightarrow>
     opt_field (contact_snapshot x) ''phone'' = opt_field x ''phone''"
  by (simp_all add: contact_snapshot_def js_or_def field_def)

lemma contact_snapshot_idem: "contact_snapshot (contact_snapshot x) = contact_snapshot x"
  by (simp add: contact_snapshot_def js_or_def field_def)

lemma appointments_embedded_userInfo_kept:
  assumes "truthy (field a ''userInfo'')"
  shows "field (fst (appointments_fetchUserAndTechnicianDetails rd a)) ''userInfo''
           = contact_snapshot (field a ''userInfo'')"
  using assms
  by (simp add: appointments_resolved_fields appointments_lookup_def appointments_fetches_def
      js_or_def)

text \<open>
  The appointments resolver is idempotent over a store that gives the same answers.
\<close>

lemma set_field_same: "map_of obj k = Some v \<Longrightarrow> set_field k v obj = obj"
  by (simp add: set_field_def update_triv)

lemma map_of_set_field: "map_of (set_field k v obj) k' = (if k' = k then Some v else map_of obj k')"
  by (simp add: set_field_def update_conv)

lemma truthy_contact_snapshot: "truthy (contact_snapshot x)"
  by (simp add: contact_snapshot_def)

lemma js_or_truthy: "truthy a \<Longrightarrow> js_or a b = a"
  by (simp add: js_or_def)

lemma js_or_falsy: "\<not> truthy a \<Longrightarrow> js_or a b = b"
  by (simp add: js_or_def)

lemma appointments_lookup_truthy:
  "truthy info \<Longrightarrow> appointments_lookup rd coll info ident = info"
  by (simp add: appointments_lookup_def appointments_fetches_def)

lemma appointments_lookup_again:
  assumes "shown = (if truthy (appointments_lookup rd coll (js_or info details) ident)
                    then contact_snapshot (appointments_lookup rd coll (js_or info details) ident)
                    else JUndefined)"
  shows "(if truthy (appointments_lookup rd coll (js_or shown details) ident)
          then contact_snapshot (appointments_lookup rd coll (js_or shown details) ident)
          else JUndefined) = shown"
proof (cases "truthy (appointments_lookup rd coll (js_or info details) ident)")
  case True
  with assms show ?thesis
    by (simp add: truthy_contact_snapshot js_or_truthy appointments_lookup_truthy
        contact_snapshot_idem)
next
  case False
  have falsy: "\<not> truthy (js_or info details)"
  proof
    assume "truthy (js_or info details)"
    from appointments_lookup_truthy [OF this, of rd coll ident] this False
    show False by simp
  qed
  have "\<not> truthy info"
  proof
    assume "truthy info"
    with falsy show False by (simp add: js_or_truthy)
  qed
  then have same: "js_or info details = details"
    by (rule js_or_falsy)
  have undef: "js_or JUndefined details = details"
    by (simp add: js_or_falsy)
  from False assms have "shown = JUndefined"
    by simp
  with False show ?thesis
    by (simp add: undef) (simp add: same)
qed

lemma appointments_resolver_idempotent:
  "fst (appointments_fetchUserAndTechnicianDetails rd
          (fst (appointments_fetchUserAndTechnicianDetails rd a)))
     = fst (appointments_fetchUserAndTechnicianDetails rd a)"
proof -
  define r where "r = fst (appointments_fetchUserAndTechnicianDetails rd a)"
  define U where "U = field r ''userInfo''"
  define T where "T = field r ''technicianInfo''"
  have other: "field r k = field a k" if "k \<noteq> ''userInfo''" "k \<noteq> ''technicianInfo''" for k
    unfolding r_def using that by (rule appointments_resolved_fields(3))
  have U1: "U = (if truthy (appointments_lookup rd ''users''
                     (js_or (field a ''userInfo'') (field a ''userDetails'')) (field a ''userId''))
                 then contact_snapshot (appointments_lookup rd ''users''
                     (js_or (field a ''userInfo'') (field a ''userDetails'')) (field a ''userId''))
                 else JUndefined)"
    by (simp add: U_def r_def appointments_resolved_fields(1) Let_def)
  have T1: "T = (if truthy (appointments_lookup rd ''technicians''
                     (js_or (field a ''technicianInfo'') (field a ''technicianDetails''))
                     (field a ''technicianId''))
                 then contact_snapshot (appointments_lookup rd ''technicians''
                     (js_or (field a ''technicianInfo'') (field a ''technicianDetails''))
                     (field a ''technicianId''))
                 else JUndefined)"
    by (simp add: T_def r_def appointments_resolved_fields(2) Let_def)
  have U2: "field (fst (appointments_fetchUserAndTechnicianDetails rd r)) ''userInfo''
      = (if truthy (appointments_lookup rd ''users'' (js_or U (field a ''userDetails''))
                      (field a ''userId''))
         then contact_snapshot (appointments_lookup rd ''users''
                      (js_or U (field a ''userDetails'')) (field a ''userId''))
         else JUndefined)"
    by (simp add: appointments_resolved_fields(1) Let_def other U_def)
  have T2: "field (fst (appointments_fetchUserAndTechnicianDetails rd r)) ''technicianInfo''
      = (if truthy (appointments_lookup rd ''technicians''
                      (js_or T (field a ''technicianDetails'')) (field a ''technicianId''))
         then contact_snapshot (appointments_lookup rd ''technicians''
                      (js_or T (field a ''technicianDetails'')) (field a ''technicianId''))
         else JUndefined)"
    by (simp add: appointments_resolved_fields(2) Let_def other T_def)
  have u: "field (fst (appointments_fetchUserAndTechnicianDetails rd r)) ''userInfo'' = U"
    unfolding U2 by (rule appointments_lookup_again [OF U1])
  have t: "field (fst (appointments_fetchUserAndTechnicianDetails rd r)) ''technicianInfo'' = T"
    unfolding T2 by (rule appointments_lookup_again [OF T1])
  have mu: "map_of r ''userInfo'' = Some U"
    by (simp add: U_def r_def appointments_fetchUserAndTechnicianDetails_def Let_def
        map_of_set_field field_def)
  have mt: "map_of r ''technicianInfo'' = Some T"
    by (simp add: T_def r_def appointments_fetchUserAndTechnicianDetails_def Let_def
        map_of_set_field field_def)
  have shape: "fst (appointments_fetchUserAndTechnicianDetails rd r)
      = set_field ''technicianInfo''
          (field (fst (appointments_fetchUserAndTechnicianDetails rd r)) ''technicianInfo'')
          (set_field ''userInfo''
             (field (fst (appointments_fetchUserAndTechnicianDetails rd r)) ''userInfo'') r)"
    unfolding appointments_resolved_fields(1,2)
    by (simp add: appointments_fetchUserAndTechnicianDetails_def Let_def)
  have "fst (appointments_fetchUserAndTechnicianDetails rd r) = r"
    by (subst shape) (simp add: u t set_field_same mu mt)
  then show ?thesis
    by (simp add: r_def)
qed

text \<open>
  C2 fails in the resolver of the repairs page. A record that embeds \<^verbatim>\<open>userInfo\<close> is
  resolved without a read, but its snapshot is replaced by the sentinels: the condition
  \<^verbatim>\<open>appointment.userInfo || userData\<close> holds and the literal reads \<^verbatim>\<open>userData\<close>, which is
  null. For the same reason the resolver is not idempotent: applied to its own result for
  a fetched user, it replaces the fetched name by "Unknown". The resolver of the
  appointments page keeps the embedded snapshot.
\<close>

theorem repairs_resolver_overwrites_embedded_snapshot:
  "repairs_fetchUserAndTechnicianDetails users_readable
     [(''id'', JStr ''r1''), (''userId'', JStr ''u1''),
      (''userInfo'', JObj [(''username'', JStr ''Maria''), (''email'', JStr ''maria@mail.test''),
                          (''phone'', JStr ''0917'')])]
     = ([(''id'', JStr ''r1''), (''userId'', JStr ''u1''),
         (''userInfo'', JObj [(''username'', JStr ''Unknown''), (''email'', JStr ''N/A''),
                             (''phone'', JStr ''N/A'')]),
         (''technicianInfo'', JUndefined), (''userDetails'', JUndefined),
         (''technicianDetails'', JUndefined)], [])
   \<and> fst (repairs_fetchUserAndTechnicianDetails users_readable
            [(''id'', JStr ''r1''), (''userId'', JStr ''u1'')])
     = [(''id'', JStr ''r1''), (''userId'', JStr ''u1''),
        (''userInfo'', JObj [(''username'', JStr ''Maria''), (''email'', JStr ''maria@mail.test''),
                            (''phone'', JStr ''N/A'')]),
        (''technicianInfo'', JUndefined),
        (''userDetails'', JObj [(''name'', JStr ''Maria''), (''email'', JStr ''maria@mail.test''),
                               (''phone'', JStr ''N/A'')]),
        (''technicianDetails'', JUndefined)]
   \<and> fst (repairs_fetchUserAndTechnicianDetails users_readable
            (fst (repairs_fetchUserAndTechnicianDetails users_readable
                    [(''id'', JStr ''r1''), (''userId'', JStr ''u1'')])))
     = [(''id'', JStr ''r1''), (''userId'', JStr ''u1''),
        (''userInfo'', JObj [(''username'', JStr ''Unknown''), (''email'', JStr ''N/A''),
                            (''phone'', JStr ''N/A'')]),
        (''technicianInfo'', JUndefined),
        (''userDetails'', JObj [(''name'', JStr ''Unknown''), (''email'', JStr ''N/A''),
                               (''phone'', JStr ''N/A'')]),
        (''technicianDetails'', JUndefined)]
   \<and> appointments_fetchUserAndTechnicianDetails users_readable
       [(''id'', JStr ''r1''), (''userId'', JStr ''u1''),
        (''userInfo'', JObj [(''username'', JStr ''Maria''), (''email'', JStr ''maria@mail.test''),
                            (''phone'', JStr ''0917'')])]
     = ([(''id'', JStr ''r1''), (''userId'', JStr ''u1''),
         (''userInfo'', JObj [(''username'', JStr ''Maria''), (''email'', JStr ''maria@mail.test''),
                             (''phone'', JStr ''0917'')]),
         (''technicianInfo'', JUndefined)], [])"
  by (simp add: resolver_eval_defs users_readable_def document_path_def)

end
